theory Spec2Isabelle
  imports Main "HOL-Library.Sublist"
begin

section \<open>JavaScript string primitives used by the controllers\<close>

text \<open>
  Strings are \<^typ>\<open>string\<close>.  \<open>s.startsWith(p)\<close>, \<open>s.endsWith(p)\<close> and
  \<open>s.includes(p)\<close> are the usual prefix, suffix and substring tests; a string is
  truthy when it is not empty, an optional string when it is present and not empty
  (\<open>null\<close> and \<open>undefined\<close> are \<^term>\<open>None\<close>).
\<close>

definition startsWith :: "string \<Rightarrow> string \<Rightarrow> bool" where
  "startsWith s p = prefix p s"

definition endsWith :: "string \<Rightarrow> string \<Rightarrow> bool" where
  "endsWith s p = prefix (rev p) (rev s)"

fun str_includes :: "string \<Rightarrow> string \<Rightarrow> bool" where
  "str_includes [] sub = (sub = [])"
| "str_includes (c # cs) sub = (prefix sub (c # cs) \<or> str_includes cs sub)"

definition truthy :: "string \<Rightarrow> bool" where
  "truthy s = (s \<noteq> [])"

definition truthy_opt :: "string option \<Rightarrow> bool" where
  "truthy_opt x = (case x of None \<Rightarrow> False | Some s \<Rightarrow> s \<noteq> [])"

section \<open>The POSIX \<open>path\<close> module of Node.js\<close>

text \<open>
  \<open>path.join\<close> drops empty arguments, glues the others with \<open>/\<close> and normalises the
  result: empty and \<open>.\<close> segments disappear, a \<open>..\<close> segment removes the segment before
  it (or is kept in front of a relative path, dropped at the root of an absolute one).
  \<open>normalizeString\<close> works on the segments between slashes; its result is kept here as
  the list of segments, generated newest first and reversed at the end.
\<close>

fun split_slash :: "string \<Rightarrow> string list" where
  "split_slash [] = [[]]"
| "split_slash (c # cs) =
     (if c = CHR ''/'' then [] # split_slash cs
      else (case split_slash cs of [] \<Rightarrow> [[c]] | s # ss \<Rightarrow> (c # s) # ss))"

fun join_slash :: "string list \<Rightarrow> string" where
  "join_slash [] = []"
| "join_slash [s] = s"
| "join_slash (s # t # ss) = s @ ''/'' @ join_slash (t # ss)"

definition norm_seg :: "bool \<Rightarrow> string list \<Rightarrow> string \<Rightarrow> string list" where
  "norm_seg allowAboveRoot res seg =
     (if seg = [] \<or> seg = ''.'' then res
      else if seg = ''..'' then
        (case res of
           [] \<Rightarrow> (if allowAboveRoot then [''..''] else [])
         | lastSeg # below \<Rightarrow>
             (if lastSeg = ''..'' then (if allowAboveRoot then ''..'' # res else res)
              else below))
      else seg # res)"

definition normalizeString :: "bool \<Rightarrow> string \<Rightarrow> string list" where
  "normalizeString allowAboveRoot p = rev (foldl (norm_seg allowAboveRoot) [] (split_slash p))"

definition path_normalize :: "string \<Rightarrow> string" where
  "path_normalize p =
     (if p = [] then ''.''
      else
        (let isAbsolute = (hd p = CHR ''/'');
             trailingSeparator = (last p = CHR ''/'');
             segs = normalizeString (\<not> isAbsolute) p
         in if segs = [] then
              (if isAbsolute then ''/'' else if trailingSeparator then ''./'' else ''.'')
            else (if isAbsolute then ''/'' else []) @ join_slash segs
                 @ (if trailingSeparator then ''/'' else [])))"

definition path_join :: "string list \<Rightarrow> string" where
  "path_join args =
     (let parts = filter (\<lambda>a. a \<noteq> []) args
      in if parts = [] then ''.'' else path_normalize (join_slash parts))"

text \<open>
  \<open>path.basename\<close>: the part after the last slash, trailing slashes ignored.
  \<open>path.parse(p).name\<close>: the basename without its extension; the extension starts at
  the last dot of the basename, unless that dot is its first character or the basename
  is \<open>..\<close>.
\<close>

definition path_basename :: "string \<Rightarrow> string" where
  "path_basename p =
     rev (takeWhile (\<lambda>c. c \<noteq> CHR ''/'') (dropWhile (\<lambda>c. c = CHR ''/'') (rev p)))"

definition path_parse_name :: "string \<Rightarrow> string" where
  "path_parse_name p =
     (let base = path_basename p;
          fromDot = dropWhile (\<lambda>c. c \<noteq> CHR ''.'') (rev base)
      in if fromDot = [] then base
         else if tl fromDot = [] then base
         else if base = ''..'' then base
         else rev (tl fromDot))"

section \<open>utils: \<open>isImage\<close>, \<open>isVideo\<close>\<close>

definition isImage :: "string \<Rightarrow> bool" where
  "isImage fileType = startsWith fileType ''image/''"

definition isVideo :: "string \<Rightarrow> bool" where
  "isVideo fileType = startsWith fileType ''video/''"

text \<open>
  The category of a stored record, as \<open>deleteMedia\<close> and \<open>optimizeMedia\<close> compute it:
  \<open>isImage(t) ? 'images' : isVideo(t) ? 'videos' : 'documents'\<close>.
\<close>

definition mediaTypeOf :: "string \<Rightarrow> string" where
  "mediaTypeOf fileType =
     (if isImage fileType then ''images''
      else if isVideo fileType then ''videos'' else ''documents'')"

text \<open>
  The directory name both \<open>uploadMedia\<close> handlers compute for a new file:
  \<open>mimetype.startsWith('image') ? 'images' : mimetype.startsWith('video') ? 'videos'
  : 'documents'\<close> (the prefixes have no slash).
\<close>

definition uploadMediaType :: "string \<Rightarrow> string" where
  "uploadMediaType mimetype =
     (if startsWith mimetype ''image'' then ''images''
      else if startsWith mimetype ''video'' then ''videos'' else ''documents'')"

section \<open>upload.middleware: file filter, storage directory, path helpers\<close>

definition allowedImages :: "string list" where
  "allowedImages =
     [''image/jpeg'', ''image/jpg'', ''image/png'', ''image/gif'', ''image/webp'',
      ''image/svg+xml'']"

definition allowedVideos :: "string list" where
  "allowedVideos =
     [''video/mp4'', ''video/mpeg'', ''video/webm'', ''video/mov'', ''video/quicktime'']"

definition allowedDocuments :: "string list" where
  "allowedDocuments =
     [''application/pdf'', ''application/msword'',
      ''application/vnd.openxmlformats-officedocument.wordprocessingml.document'',
      ''application/vnd.ms-excel'',
      ''application/vnd.openxmlformats-officedocument.spreadsheetml.sheet'',
      ''text/plain'', ''text/csv'']"

definition fileFilter :: "string \<Rightarrow> bool" where
  "fileFilter mimetype =
     (mimetype \<in> set (allowedImages @ allowedVideos @ allowedDocuments))"

text \<open>The filter of the external route: images and videos only.\<close>

definition externalFileFilter :: "string \<Rightarrow> bool" where
  "externalFileFilter mimetype =
     (startsWith mimetype ''image/'' \<or> startsWith mimetype ''video/'')"

text \<open>The directory name multer's \<open>destination\<close> callback picks for the upload.\<close>

definition storageMediaType :: "string \<Rightarrow> string" where
  "storageMediaType mimetype =
     (if startsWith mimetype ''image/'' then ''images''
      else if startsWith mimetype ''video/'' then ''videos'' else ''documents'')"

text \<open>
  \<open>BASE_UPLOAD_PATH = process.env.UPLOAD_PATH || './uploads'\<close>; the helpers below take
  its value as their first argument \<open>base\<close>.
\<close>

definition BASE_UPLOAD_PATH :: "string option \<Rightarrow> string" where
  "BASE_UPLOAD_PATH env =
     (case env of None \<Rightarrow> ''./uploads'' | Some v \<Rightarrow> if v = [] then ''./uploads'' else v)"

definition getUserFilePath :: "string \<Rightarrow> string \<Rightarrow> string \<Rightarrow> string \<Rightarrow> string" where
  "getUserFilePath base uid mediaType fname = path_join [base, uid, mediaType, fname]"

definition getThumbnailPath :: "string \<Rightarrow> string \<Rightarrow> string \<Rightarrow> string" where
  "getThumbnailPath base uid fname = path_join [base, uid, ''thumbnails'', fname]"

definition getOptimizedPath :: "string \<Rightarrow> string \<Rightarrow> string \<Rightarrow> string \<Rightarrow> string" where
  "getOptimizedPath base uid mediaType fname =
     path_join [base, uid, mediaType, ''optimized'', fname]"

text \<open>The owner's directory, as \<open>ensureUserDirExists\<close> computes it.\<close>

definition userDirOf :: "string \<Rightarrow> string \<Rightarrow> string" where
  "userDirOf base uid = path_join [base, uid]"

text \<open>A single path segment: not empty, no slash, neither \<open>.\<close> nor \<open>..\<close>.\<close>

definition plainSegment :: "string \<Rightarrow> bool" where
  "plainSegment s = (s \<noteq> [] \<and> CHR ''/'' \<notin> set s \<and> s \<noteq> ''.'' \<and> s \<noteq> ''..'')"

section \<open>models/Media.ts: the stored document\<close>

text \<open>
  The fields of \<open>IMedia\<close>.  The document's \<open>_id\<close> is the key under which the store
  holds it; \<open>createdAt\<close> and \<open>updatedAt\<close> are left out (no handler reads or writes them,
  and a \<open>save()\<close> that changes nothing does not touch them).
\<close>

record media =
  fileName :: string
  originalFileName :: string
  fileType :: string
  fileSize :: nat
  fileUrl :: string
  thumbnailUrl :: "string option"
  userId :: string
  optimizedFileUrl :: "string option"
  isOptimized :: bool

text \<open>One assignment to a field of a document; an update call carries a list of them.\<close>

datatype fieldUpdate =
    FileSize nat
  | FileUrl string
  | OptimizedFileUrl "string option"
  | IsOptimized bool

fun apply_field :: "fieldUpdate \<Rightarrow> media \<Rightarrow> media" where
  "apply_field (FileSize n) d = d\<lparr>fileSize := n\<rparr>"
| "apply_field (FileUrl u) d = d\<lparr>fileUrl := u\<rparr>"
| "apply_field (OptimizedFileUrl u) d = d\<lparr>optimizedFileUrl := u\<rparr>"
| "apply_field (IsOptimized b) d = d\<lparr>isOptimized := b\<rparr>"

fun field_holds :: "fieldUpdate \<Rightarrow> media \<Rightarrow> bool" where
  "field_holds (FileSize n) d = (fileSize d = n)"
| "field_holds (FileUrl u) d = (fileUrl d = u)"
| "field_holds (OptimizedFileUrl u) d = (optimizedFileUrl d = u)"
| "field_holds (IsOptimized b) d = (isOptimized d = b)"

definition apply_fields :: "fieldUpdate list \<Rightarrow> media \<Rightarrow> media" where
  "apply_fields fs d = foldl (\<lambda>acc f. apply_field f acc) d fs"

section \<open>The world the handlers act on\<close>

text \<open>
  Background work started with ffmpeg outlives the request.  A job records what its
  closure captured: the screenshot job its input, folder and file name; the transcode
  job of an upload its input, its output, the id it will update (\<open>dbRecordId\<close>) and the
  locator it will store; the transcode job of \<open>optimizeMedia\<close> the document it holds.
\<close>

datatype job =
    ScreenshotJob string string string
  | UploadTranscodeJob string string string string
  | OptimizeTranscodeJob string string string media string

datatype event =
    Mkdir string
  | FileWritten string nat
  | Unlinked string
  | Renamed string string
  | DbCreate string media
  | DbUpdate string "fieldUpdate list"
  | DbDelete string
  | ConsoleLog string
  | ConsoleError string

text \<open>
  \<open>files\<close> maps the path of each regular file to its size in bytes, \<open>dirs\<close> holds the
  paths that are directories, \<open>docs\<close> is the Media collection
  keyed by \<open>_id\<close>, \<open>users\<close> the ids of the User collection, \<open>jobs\<close> the background jobs
  launched so far and \<open>trace\<close> every mutation and console line, oldest first.
\<close>

record world =
  files :: "string \<Rightarrow> nat option"
  dirs :: "string set"
  docs :: "string \<Rightarrow> media option"
  users :: "string set"
  jobs :: "job list"
  trace :: "event list"

text \<open>
  An exception is a value: \<open>ApiError\<close> carries its status code, any other error (a
  failed encode, a file system or database error) has none and is answered with 500.
  A step returns its result or the exception, together with the world it leaves.
\<close>

datatype err = ApiError string nat | OtherError string

definition ok :: "'a \<Rightarrow> world \<Rightarrow> (err + 'a) \<times> world" where
  "ok x w = (Inr x, w)"

definition throw :: "err \<Rightarrow> world \<Rightarrow> (err + 'a) \<times> world" where
  "throw e w = (Inl e, w)"

definition andThen ::
  "(world \<Rightarrow> (err + 'a) \<times> world) \<Rightarrow> ('a \<Rightarrow> world \<Rightarrow> (err + 'b) \<times> world)
     \<Rightarrow> world \<Rightarrow> (err + 'b) \<times> world" where
  "andThen m f w = (case m w of (Inl e, w') \<Rightarrow> (Inl e, w') | (Inr x, w') \<Rightarrow> f x w')"

definition emit :: "event \<Rightarrow> world \<Rightarrow> world" where
  "emit e w = w\<lparr>trace := trace w @ [e]\<rparr>"

subsection \<open>fs\<close>

text \<open>
  \<open>fs.existsSync\<close> is true for a regular file and for a directory alike.
  \<open>fs.unlinkSync\<close> removes a regular file; on a directory it throws \<open>EISDIR\<close>, on a path
  that does not exist \<open>ENOENT\<close>.
\<close>

definition existsSync :: "string \<Rightarrow> world \<Rightarrow> bool" where
  "existsSync p w = (files w p \<noteq> None \<or> p \<in> dirs w)"

definition unlinkSync :: "string \<Rightarrow> world \<Rightarrow> (err + unit) \<times> world" where
  "unlinkSync p w =
     (if files w p \<noteq> None then ok () (emit (Unlinked p) (w\<lparr>files := (files w)(p := None)\<rparr>))
      else if p \<in> dirs w then
        throw (OtherError ''EISDIR: illegal operation on a directory, unlink'') w
      else throw (OtherError ''ENOENT: no such file or directory'') w)"

definition statSync :: "string \<Rightarrow> world \<Rightarrow> (err + nat) \<times> world" where
  "statSync p w =
     (case files w p of
        None \<Rightarrow> throw (OtherError ''ENOENT: no such file or directory'') w
      | Some n \<Rightarrow> ok n w)"

definition renameSync :: "string \<Rightarrow> string \<Rightarrow> world \<Rightarrow> (err + unit) \<times> world" where
  "renameSync a b w =
     (case files w a of
        None \<Rightarrow> throw (OtherError ''ENOENT: no such file or directory'') w
      | Some n \<Rightarrow> ok () (emit (Renamed a b) (w\<lparr>files := (files w)(a := None, b := Some n)\<rparr>)))"

definition mkdirSync :: "string \<Rightarrow> world \<Rightarrow> (err + unit) \<times> world" where
  "mkdirSync d w = ok () (emit (Mkdir d) (w\<lparr>dirs := insert d (dirs w)\<rparr>))"

text \<open>\<open>ensureUserDirExists(userId, subDir)\<close> of upload.middleware.\<close>

definition ensureUserDirExists ::
  "string \<Rightarrow> string \<Rightarrow> string \<Rightarrow> world \<Rightarrow> (err + string) \<times> world" where
  "ensureUserDirExists base uid subDir =
     (let userDir = path_join [base, uid]
      in andThen (\<lambda>w. if userDir \<in> dirs w then ok () w else mkdirSync userDir w) (\<lambda>_.
           if truthy subDir then
             (let fullPath = path_join [userDir, subDir]
              in andThen (\<lambda>w. if fullPath \<in> dirs w then ok () w else mkdirSync fullPath w)
                   (\<lambda>_. ok fullPath))
           else ok userDir))"

subsection \<open>sharp\<close>

text \<open>
  \<open>sharp(src)...toFile(dst)\<close>.  Whether the encoder succeeds, and with how many bytes, is
  decided outside the program: \<open>SharpOk n\<close> writes \<open>n\<close> bytes to \<open>dst\<close>; \<open>SharpFail r\<close>
  rejects, leaving at \<open>dst\<close> a truncated file of \<open>k\<close> bytes when \<open>r = Some k\<close> and nothing
  when \<open>r = None\<close>.  sharp rejects by itself when input and output are the same file
  and when the input is missing.
\<close>

datatype sharp_outcome = SharpOk nat | SharpFail "nat option"

definition sharp_toFile ::
  "sharp_outcome \<Rightarrow> string \<Rightarrow> string \<Rightarrow> world \<Rightarrow> (err + unit) \<times> world" where
  "sharp_toFile outcome src dst w =
     (if src = dst then throw (OtherError ''Cannot use same file for input and output'') w
      else if files w src = None then throw (OtherError ''Input file is missing'') w
      else
        (case outcome of
           SharpOk n \<Rightarrow> ok () (emit (FileWritten dst n) (w\<lparr>files := (files w)(dst := Some n)\<rparr>))
         | SharpFail r \<Rightarrow>
             throw (OtherError ''sharp: the image could not be written'')
               (case r of
                  None \<Rightarrow> w
                | Some k \<Rightarrow> emit (FileWritten dst k) (w\<lparr>files := (files w)(dst := Some k)\<rparr>))))"

subsection \<open>ffmpeg\<close>

text \<open>Starting a job returns at once; the job is only recorded.\<close>

definition ffmpeg_launch :: "job \<Rightarrow> world \<Rightarrow> (err + unit) \<times> world" where
  "ffmpeg_launch j w = ok () (w\<lparr>jobs := jobs w @ [j]\<rparr>)"

datatype ffmpeg_outcome = FfmpegEnd nat | FfmpegError

subsection \<open>mongoose\<close>

text \<open>
  An id given as a string is cast to an ObjectId first: 24 hexadecimal digits, read
  without regard to case; any other string makes the query reject with a CastError.
  (Every id that reaches a handler through the routes has passed \<open>isMongoId\<close>.)
\<close>

definition lowerHex :: "char \<Rightarrow> char" where
  "lowerHex c =
     (if c = CHR ''A'' then CHR ''a'' else if c = CHR ''B'' then CHR ''b''
      else if c = CHR ''C'' then CHR ''c'' else if c = CHR ''D'' then CHR ''d''
      else if c = CHR ''E'' then CHR ''e'' else if c = CHR ''F'' then CHR ''f'' else c)"

definition castObjectId :: "string \<Rightarrow> string option" where
  "castObjectId s =
     (if length s = 24 \<and> list_all (\<lambda>c. c \<in> set ''0123456789abcdefABCDEF'') s
      then Some (map lowerHex s) else None)"

definition castError :: err where
  "castError = OtherError ''Cast to ObjectId failed''"

text \<open>
  \<open>Media.create(doc)\<close>: the schema's \<open>required\<close> strings must not be empty; the new
  document gets the id \<open>newId\<close> the driver generated for it.
\<close>

definition Media_create :: "string \<Rightarrow> media \<Rightarrow> world \<Rightarrow> (err + string \<times> media) \<times> world" where
  "Media_create newId d w =
     (if \<not> (truthy (fileName d) \<and> truthy (originalFileName d) \<and> truthy (fileType d)
            \<and> truthy (fileUrl d))
      then throw (OtherError ''Media validation failed'') w
      else if docs w newId \<noteq> None then throw (OtherError ''E11000 duplicate key error'') w
      else ok (newId, d) (emit (DbCreate newId d) (w\<lparr>docs := (docs w)(newId := Some d)\<rparr>)))"

text \<open>\<open>Media.findOne({ _id: mediaId, userId })\<close>: the document and its \<open>_id\<close>.\<close>

definition Media_findOne ::
  "string \<Rightarrow> string \<Rightarrow> world \<Rightarrow> (err + (string \<times> media) option) \<times> world" where
  "Media_findOne mediaId uid w =
     (case castObjectId mediaId of
        None \<Rightarrow> throw castError w
      | Some k \<Rightarrow>
          (case docs w k of
             None \<Rightarrow> ok None w
           | Some d \<Rightarrow> if userId d = uid then ok (Some (k, d)) w else ok None w))"

text \<open>\<open>Media.findByIdAndUpdate(id, update)\<close>: one update call; \<open>null\<close> when no document has the id.\<close>

definition Media_findByIdAndUpdate ::
  "string \<Rightarrow> fieldUpdate list \<Rightarrow> world \<Rightarrow> (err + media option) \<times> world" where
  "Media_findByIdAndUpdate anId upd w =
     (case castObjectId anId of
        None \<Rightarrow> throw castError w
      | Some k \<Rightarrow>
          (case docs w k of
             None \<Rightarrow> ok None w
           | Some d \<Rightarrow>
               ok (Some d) (emit (DbUpdate k upd) (w\<lparr>docs := (docs w)(k := Some (apply_fields upd d))\<rparr>))))"

text \<open>
  \<open>doc.save()\<close> after the assignments \<open>assigned\<close> to the in-memory document \<open>d\<close>: the
  assignments that changed a value are sent in one update call for the document's id; when
  none did, nothing is written.
\<close>

definition Media_save ::
  "string \<Rightarrow> media \<Rightarrow> fieldUpdate list \<Rightarrow> world \<Rightarrow> (err + media) \<times> world" where
  "Media_save k d assigned w =
     (let modified = filter (\<lambda>f. \<not> field_holds f d) assigned
      in case docs w k of
           None \<Rightarrow> throw (OtherError ''DocumentNotFoundError'') w
         | Some stored \<Rightarrow>
             if modified = [] then ok d w
             else ok (apply_fields assigned d)
                    (emit (DbUpdate k modified)
                       (w\<lparr>docs := (docs w)(k := Some (apply_fields modified stored))\<rparr>)))"

definition Media_deleteOne :: "string \<Rightarrow> world \<Rightarrow> (err + unit) \<times> world" where
  "Media_deleteOne k w = ok () (emit (DbDelete k) (w\<lparr>docs := (docs w)(k := None)\<rparr>))"

section \<open>Requests and responses\<close>

text \<open>
  \<open>req.file\<close> as multer leaves it, \<open>req.user._id.toString()\<close> as \<open>protect\<close> sets it,
  \<open>req.userId\<close> as \<open>validateApiKey\<close> sets it, \<open>req.get('host')\<close>, \<open>req.protocol\<close> and
  \<open>req.params.id\<close>.
\<close>

record multer_file =
  originalname :: string
  mimetype :: string
  size_f :: nat
  filename :: string
  path_f :: string

record request =
  req_file :: "multer_file option"
  req_user :: "string option"
  req_userId :: "string option"
  req_host :: string
  req_protocol :: string
  req_id :: string

text \<open>
  What a handler sends: the status, the message and the \<open>media\<close> object of the body
  (all public fields after an upload; the fields each branch of \<open>optimizeMedia\<close> lists;
  the id after a delete).
\<close>

datatype payload =
    NoPayload
  | MediaView string media
  | OptimizedView string "string option" bool
  | ImageOptimizedView string string "string option" bool nat
  | WebpView string string bool
  | IdView string

record response =
  res_status :: nat
  res_message :: string
  res_media :: payload

definition err_status :: "err \<Rightarrow> nat" where
  "err_status e = (case e of ApiError m c \<Rightarrow> (if c = 0 then 500 else c) | OtherError m \<Rightarrow> 500)"

definition err_message :: "err \<Rightarrow> string \<Rightarrow> string" where
  "err_message e dflt =
     (let m = (case e of ApiError m c \<Rightarrow> m | OtherError m \<Rightarrow> m) in if m = [] then dflt else m)"

text \<open>The \<open>catch\<close> block every handler ends with.\<close>

definition respond :: "string \<Rightarrow> (err + response) \<times> world \<Rightarrow> response \<times> world" where
  "respond dflt r =
     (case r of
        (Inl e, w) \<Rightarrow>
          (\<lparr>res_status = err_status e, res_message = err_message e dflt, res_media = NoPayload\<rparr>, w)
      | (Inr resp, w) \<Rightarrow> (resp, w))"

text \<open>
  What lies outside the program during one upload: the results of the two image
  encodes, the string \<open>uuidv4()\<close> returns and the \<open>_id\<close> generated for the new document.
\<close>

record upload_env =
  enc_optimized :: sharp_outcome
  enc_thumbnail :: sharp_outcome
  uuid :: string
  newObjectId :: string

text \<open>The variables an upload computes before it creates the record.\<close>

record upload_vars =
  v_fileUrl :: string
  v_thumbnailUrl :: "string option"
  v_optimizedFileUrl :: "string option"
  v_isOptimized :: bool
  v_optimizedSize :: nat
  v_newFileName :: string

text \<open>
  The three locators the handlers build with template strings:
  \<open>${baseUrl}/uploads/${userId}/${mediaType}/${name}\<close>,
  \<open>${baseUrl}/uploads/${userId}/${mediaType}/optimized/${name}\<close> and
  \<open>${baseUrl}/uploads/${userId}/thumbnails/${name}\<close>.
\<close>

definition fileUrlOf :: "string \<Rightarrow> string \<Rightarrow> string \<Rightarrow> string \<Rightarrow> string" where
  "fileUrlOf baseUrl uid mediaType fname =
     baseUrl @ ''/uploads/'' @ uid @ ''/'' @ mediaType @ ''/'' @ fname"

definition optimizedUrlOf :: "string \<Rightarrow> string \<Rightarrow> string \<Rightarrow> string \<Rightarrow> string" where
  "optimizedUrlOf baseUrl uid mediaType fname =
     baseUrl @ ''/uploads/'' @ uid @ ''/'' @ mediaType @ ''/optimized/'' @ fname"

definition thumbnailUrlOf :: "string \<Rightarrow> string \<Rightarrow> string \<Rightarrow> string" where
  "thumbnailUrlOf baseUrl uid fname = baseUrl @ ''/uploads/'' @ uid @ ''/thumbnails/'' @ fname"

section \<open>uploadMedia\<close>

text \<open>The image branch; its text is the same in both controllers.\<close>

definition imageBranch ::
  "string \<Rightarrow> upload_env \<Rightarrow> string \<Rightarrow> string \<Rightarrow> string \<Rightarrow> multer_file
     \<Rightarrow> world \<Rightarrow> (err + upload_vars) \<times> world" where
  "imageBranch base env baseUrl uid mediaType file =
     (let webpFilename = path_parse_name (filename file) @ ''.webp'';
          optimizedPath = getOptimizedPath base uid mediaType webpFilename
      in andThen (ensureUserDirExists base uid (mediaType @ ''/optimized'')) (\<lambda>_.
         andThen (sharp_toFile (enc_optimized env) (path_f file) optimizedPath) (\<lambda>_.
         andThen (statSync optimizedPath) (\<lambda>optimizedSize.
           (let optimizedFileUrl =
                  optimizedUrlOf baseUrl uid mediaType webpFilename;
                thumbnailFilename = ''thumb_'' @ webpFilename;
                thumbnailPath = getThumbnailPath base uid thumbnailFilename
            in andThen (sharp_toFile (enc_thumbnail env) (path_f file) thumbnailPath) (\<lambda>_.
               andThen (\<lambda>w. if existsSync (path_f file) w then unlinkSync (path_f file) w
                            else ok () w) (\<lambda>_.
               ok \<lparr>v_fileUrl = optimizedFileUrl,
                   v_thumbnailUrl =
                     Some (thumbnailUrlOf baseUrl uid thumbnailFilename),
                   v_optimizedFileUrl = Some optimizedFileUrl,
                   v_isOptimized = True,
                   v_optimizedSize = optimizedSize,
                   v_newFileName = webpFilename\<rparr>)))))))"

text \<open>The video branch of media.controller: both jobs read \<open>file.path\<close>.\<close>

definition videoBranch ::
  "string \<Rightarrow> upload_env \<Rightarrow> string \<Rightarrow> string \<Rightarrow> string \<Rightarrow> multer_file
     \<Rightarrow> world \<Rightarrow> (err + upload_vars) \<times> world" where
  "videoBranch base env baseUrl uid mediaType file =
     (let fileUrl = fileUrlOf baseUrl uid mediaType (filename file);
          thumbnailFilename = ''thumb_'' @ path_parse_name (filename file) @ ''.jpg''
      in andThen (ensureUserDirExists base uid ''thumbnails'') (\<lambda>_.
         andThen (ffmpeg_launch
                    (ScreenshotJob (path_f file) (path_join [base, uid, ''thumbnails''])
                       thumbnailFilename)) (\<lambda>_.
           (let thumbnailUrl = thumbnailUrlOf baseUrl uid thumbnailFilename;
                optimizedFilename = ''opt_'' @ path_parse_name (filename file) @ ''.mp4'';
                optimizedPath = getOptimizedPath base uid mediaType optimizedFilename
            in andThen (ensureUserDirExists base uid (mediaType @ ''/optimized'')) (\<lambda>_.
                 (let dbRecordId = uuid env;
                      optimizedUrl =
                        optimizedUrlOf baseUrl uid mediaType optimizedFilename
                  in andThen (ffmpeg_launch
                                (UploadTranscodeJob (path_f file) optimizedPath dbRecordId
                                   optimizedUrl)) (\<lambda>_.
                     ok \<lparr>v_fileUrl = fileUrl,
                         v_thumbnailUrl = Some thumbnailUrl,
                         v_optimizedFileUrl = None,
                         v_isOptimized = False,
                         v_optimizedSize = size_f file,
                         v_newFileName = filename file\<rparr>)))))))"

text \<open>
  The video branch of external.controller: the screenshot job reads \<open>file.path\<close>, then
  the file is moved into the owner's directory and the transcode job reads it there.
\<close>

definition external_videoBranch ::
  "string \<Rightarrow> upload_env \<Rightarrow> string \<Rightarrow> string \<Rightarrow> string \<Rightarrow> multer_file
     \<Rightarrow> world \<Rightarrow> (err + upload_vars) \<times> world" where
  "external_videoBranch base env baseUrl uid mediaType file =
     (let fileUrl = fileUrlOf baseUrl uid mediaType (filename file);
          thumbnailFilename = ''thumb_'' @ path_parse_name (filename file) @ ''.jpg''
      in andThen (ensureUserDirExists base uid ''thumbnails'') (\<lambda>_.
         andThen (ensureUserDirExists base uid mediaType) (\<lambda>_.
         andThen (ffmpeg_launch
                    (ScreenshotJob (path_f file) (path_join [base, uid, ''thumbnails''])
                       thumbnailFilename)) (\<lambda>_.
           (let thumbnailUrl = thumbnailUrlOf baseUrl uid thumbnailFilename;
                userVideoPath = getUserFilePath base uid mediaType (filename file)
            in andThen (renameSync (path_f file) userVideoPath) (\<lambda>_.
                 (let optimizedFilename = ''opt_'' @ path_parse_name (filename file) @ ''.mp4'';
                      optimizedPath = getOptimizedPath base uid mediaType optimizedFilename
                  in andThen (ensureUserDirExists base uid (mediaType @ ''/optimized'')) (\<lambda>_.
                       (let dbRecordId = uuid env;
                            optimizedUrl =
                              optimizedUrlOf baseUrl uid mediaType optimizedFilename
                        in andThen (ffmpeg_launch
                                      (UploadTranscodeJob userVideoPath optimizedPath dbRecordId
                                         optimizedUrl)) (\<lambda>_.
                           ok \<lparr>v_fileUrl = fileUrl,
                               v_thumbnailUrl = Some thumbnailUrl,
                               v_optimizedFileUrl = None,
                               v_isOptimized = False,
                               v_optimizedSize = size_f file,
                               v_newFileName = filename file\<rparr>))))))))))"

definition documentBranch ::
  "string \<Rightarrow> string \<Rightarrow> string \<Rightarrow> multer_file \<Rightarrow> world \<Rightarrow> (err + upload_vars) \<times> world" where
  "documentBranch baseUrl uid mediaType file =
     ok \<lparr>v_fileUrl = fileUrlOf baseUrl uid mediaType (filename file),
         v_thumbnailUrl = None,
         v_optimizedFileUrl = None,
         v_isOptimized = False,
         v_optimizedSize = size_f file,
         v_newFileName = filename file\<rparr>"

text \<open>\<open>Media.create({...})\<close> and the 201 response; the same text in both controllers.\<close>

definition createRecord ::
  "upload_env \<Rightarrow> string \<Rightarrow> multer_file \<Rightarrow> upload_vars \<Rightarrow> world \<Rightarrow> (err + response) \<times> world" where
  "createRecord env uid file v =
     andThen (Media_create (newObjectId env)
                \<lparr>fileName = v_newFileName v,
                 originalFileName = originalname file,
                 fileType = mimetype file,
                 fileSize = v_optimizedSize v,
                 fileUrl = v_fileUrl v,
                 thumbnailUrl = v_thumbnailUrl v,
                 userId = uid,
                 optimizedFileUrl = v_optimizedFileUrl v,
                 isOptimized = v_isOptimized v\<rparr>) (\<lambda>created.
       ok \<lparr>res_status = 201, res_message = ''Media uploaded successfully'',
           res_media = MediaView (fst created) (snd created)\<rparr>)"

text \<open>media.controller, \<open>POST /api/media\<close>.\<close>

definition uploadMedia :: "string \<Rightarrow> upload_env \<Rightarrow> request \<Rightarrow> world \<Rightarrow> response \<times> world" where
  "uploadMedia base env req w =
     (case req_file req of
        None \<Rightarrow> respond ''An error occurred uploading media'' (throw (ApiError ''No file uploaded'' 400) w)
      | Some file \<Rightarrow>
          (case req_user req of
             None \<Rightarrow>
               (\<lparr>res_status = 401, res_message = ''User not authenticated'', res_media = NoPayload\<rparr>, w)
           | Some uid \<Rightarrow>
               (let baseUrl = ''https://'' @ req_host req;
                    mediaType = uploadMediaType (mimetype file)
                in respond ''An error occurred uploading media''
                     (andThen
                        (if isImage (mimetype file) then imageBranch base env baseUrl uid mediaType file
                         else if isVideo (mimetype file) then
                           videoBranch base env baseUrl uid mediaType file
                         else documentBranch baseUrl uid mediaType file)
                        (createRecord env uid file) w))))"

text \<open>external.controller, \<open>POST /api/external/media\<close>.\<close>

definition external_uploadMedia ::
  "string \<Rightarrow> upload_env \<Rightarrow> request \<Rightarrow> world \<Rightarrow> response \<times> world" where
  "external_uploadMedia base env req w =
     respond ''An error occurred uploading media''
       (case req_file req of
          None \<Rightarrow> throw (ApiError ''No file uploaded'' 400) w
        | Some file \<Rightarrow>
            (let baseUrl = ''https://'' @ req_host req
             in if \<not> truthy_opt (req_userId req) then throw (ApiError ''User ID is required'' 401) w
                else
                  (let uid = the (req_userId req)
                   in if uid \<notin> users w then
                        throw (ApiError ''User associated with this API key not found'' 401) w
                      else
                        (let mediaType = uploadMediaType (mimetype file)
                         in andThen
                              (if isImage (mimetype file) then
                                 imageBranch base env baseUrl uid mediaType file
                               else if isVideo (mimetype file) then
                                 external_videoBranch base env baseUrl uid mediaType file
                               else documentBranch baseUrl uid mediaType file)
                              (createRecord env uid file) w))))"

section \<open>Completion of the background jobs of an upload\<close>

text \<open>
  The \<open>end\<close> handler of the transcode an upload started: it reads the size of the
  output, updates the record whose id is \<open>dbRecordId\<close>, logs, and deletes the input; any
  exception on the way is caught and logged.
\<close>

definition uploadTranscode_onEnd :: "string \<Rightarrow> string \<Rightarrow> string \<Rightarrow> string \<Rightarrow> world \<Rightarrow> world" where
  "uploadTranscode_onEnd src optimizedPath dbRecordId optimizedUrl w =
     (case andThen (statSync optimizedPath) (\<lambda>optimizedSize.
             andThen (Media_findByIdAndUpdate dbRecordId
                        [OptimizedFileUrl (Some optimizedUrl), IsOptimized True,
                         FileSize optimizedSize]) (\<lambda>_.
             andThen (\<lambda>w1. ok () (emit (ConsoleLog ''Video optimized'') w1)) (\<lambda>_.
               (\<lambda>w2. if existsSync src w2 then unlinkSync src w2 else ok () w2)))) w of
        (Inl e, w') \<Rightarrow> emit (ConsoleError ''Error updating media record after optimization'') w'
      | (Inr u, w') \<Rightarrow> w')"

section \<open>deleteMedia\<close>

text \<open>\<open>a || b\<close> for an optional string \<open>a\<close> and a string \<open>b\<close>.\<close>

definition or_else :: "string option \<Rightarrow> string \<Rightarrow> string" where
  "or_else a b = (case a of None \<Rightarrow> b | Some s \<Rightarrow> if s = [] then b else s)"

text \<open>
  From \<open>Media.findOne\<close> to the 200 response; the same text in both controllers.  Each
  \<open>unlinkSync\<close> is guarded by \<open>existsSync\<close>; the record is deleted last.
\<close>

definition deleteRecord :: "string \<Rightarrow> string \<Rightarrow> string \<Rightarrow> world \<Rightarrow> (err + response) \<times> world" where
  "deleteRecord base uid mediaId =
     andThen (Media_findOne mediaId uid) (\<lambda>found.
       (case found of
          None \<Rightarrow> throw (ApiError ''Media not found'' 404)
        | Some (k, m) \<Rightarrow>
            (let mediaType = mediaTypeOf (fileType m)
             in andThen (\<lambda>w.
                   if truthy (fileUrl m) \<and> \<not> str_includes (fileUrl m) ''/optimized/'' then
                     (let filePath = getUserFilePath base uid mediaType (fileName m)
                      in if existsSync filePath w then unlinkSync filePath w else ok () w)
                   else ok () w) (\<lambda>_.
                andThen (\<lambda>w.
                   if truthy_opt (thumbnailUrl m) then
                     (let thumbnailFilename = path_basename (the (thumbnailUrl m));
                          thumbnailPath = getThumbnailPath base uid thumbnailFilename
                      in if existsSync thumbnailPath w then unlinkSync thumbnailPath w else ok () w)
                   else ok () w) (\<lambda>_.
                andThen (\<lambda>w.
                   if truthy_opt (optimizedFileUrl m) \<or> str_includes (fileUrl m) ''/optimized/'' then
                     (let url = or_else (optimizedFileUrl m) (fileUrl m);
                          optimizedFilename = path_basename url;
                          optimizedPath = getOptimizedPath base uid mediaType optimizedFilename
                      in if existsSync optimizedPath w then unlinkSync optimizedPath w else ok () w)
                   else ok () w) (\<lambda>_.
                andThen (Media_deleteOne k) (\<lambda>_.
                ok \<lparr>res_status = 200, res_message = ''Media deleted successfully'',
                    res_media = IdView mediaId\<rparr>)))))))"

text \<open>media.controller, \<open>DELETE /api/media/:id\<close>.\<close>

definition deleteMedia :: "string \<Rightarrow> request \<Rightarrow> world \<Rightarrow> response \<times> world" where
  "deleteMedia base req w =
     (case req_user req of
        None \<Rightarrow>
          (\<lparr>res_status = 401, res_message = ''User not authenticated'', res_media = NoPayload\<rparr>, w)
      | Some uid \<Rightarrow>
          respond ''An error occurred deleting media'' (deleteRecord base uid (req_id req) w))"


section \<open>optimizeMedia\<close>

text \<open>
  The \<open>end\<close> handler of the transcode \<open>optimizeMedia\<close> started: all four assignments to
  the document it holds, one \<open>save()\<close>, then the input is deleted.
\<close>

definition optimizeTranscode_onEnd ::
  "string \<Rightarrow> string \<Rightarrow> string \<Rightarrow> media \<Rightarrow> string \<Rightarrow> world \<Rightarrow> world" where
  "optimizeTranscode_onEnd sourcePath optimizedPath k m optimizedUrl w =
     (case andThen (statSync optimizedPath) (\<lambda>optimizedSize.
             andThen (Media_save k m
                        [OptimizedFileUrl (Some optimizedUrl), IsOptimized True,
                         FileSize optimizedSize, FileUrl optimizedUrl]) (\<lambda>_.
             andThen (\<lambda>w1. if existsSync sourcePath w1 \<and> sourcePath \<noteq> optimizedPath
                           then unlinkSync sourcePath w1 else ok () w1) (\<lambda>_.
               (\<lambda>w2. ok () (emit (ConsoleLog ''Video optimized'') w2))))) w of
        (Inl e, w') \<Rightarrow> emit (ConsoleError ''Error updating media record after optimization'') w'
      | (Inr u, w') \<Rightarrow> w')"

text \<open>
  A job ends when ffmpeg has written its output (\<open>FfmpegEnd n\<close>, \<open>n\<close> bytes) or fails; a
  job whose input is gone fails.  Failure runs the \<open>error\<close> handler, which only logs.
\<close>

definition job_complete :: "job \<Rightarrow> ffmpeg_outcome \<Rightarrow> world \<Rightarrow> world" where
  "job_complete j outcome w =
     (case j of
        ScreenshotJob src folder fname \<Rightarrow>
          (case (if files w src = None then FfmpegError else outcome) of
             FfmpegEnd n \<Rightarrow>
               emit (FileWritten (path_join [folder, fname]) n)
                 (w\<lparr>files := (files w)(path_join [folder, fname] := Some n)\<rparr>)
           | FfmpegError \<Rightarrow> emit (ConsoleError ''Error generating video thumbnail'') w)
      | UploadTranscodeJob src optimizedPath dbRecordId optimizedUrl \<Rightarrow>
          (case (if files w src = None then FfmpegError else outcome) of
             FfmpegEnd n \<Rightarrow>
               uploadTranscode_onEnd src optimizedPath dbRecordId optimizedUrl
                 (emit (FileWritten optimizedPath n) (w\<lparr>files := (files w)(optimizedPath := Some n)\<rparr>))
           | FfmpegError \<Rightarrow> emit (ConsoleError ''Error optimizing video'') w)
      | OptimizeTranscodeJob sourcePath optimizedPath k m optimizedUrl \<Rightarrow>
          (case (if files w sourcePath = None then FfmpegError else outcome) of
             FfmpegEnd n \<Rightarrow>
               optimizeTranscode_onEnd sourcePath optimizedPath k m optimizedUrl
                 (emit (FileWritten optimizedPath n) (w\<lparr>files := (files w)(optimizedPath := Some n)\<rparr>))
           | FfmpegError \<Rightarrow> emit (ConsoleError ''Error optimizing video'') w))"

text \<open>The branch for an image that is not a WebP file yet: two \<open>save()\<close> calls.\<close>

definition optimizeImage ::
  "string \<Rightarrow> sharp_outcome \<Rightarrow> string \<Rightarrow> string \<Rightarrow> string \<Rightarrow> string \<Rightarrow> media
     \<Rightarrow> world \<Rightarrow> (err + response) \<times> world" where
  "optimizeImage base enc baseUrl uid mediaType k m =
     (let webpFilename = ''opt_'' @ path_parse_name (fileName m) @ ''.webp'';
          optimizedPath = getOptimizedPath base uid mediaType webpFilename;
          optimizedUrl =
            optimizedUrlOf baseUrl uid mediaType webpFilename;
          sourcePath = getUserFilePath base uid mediaType (fileName m)
      in andThen (ensureUserDirExists base uid (mediaType @ ''/optimized'')) (\<lambda>_.
         andThen (sharp_toFile enc sourcePath optimizedPath) (\<lambda>_.
         andThen (statSync optimizedPath) (\<lambda>optimizedSize.
         andThen (Media_save k m
                    [OptimizedFileUrl (Some optimizedUrl), IsOptimized True,
                     FileSize optimizedSize]) (\<lambda>m1.
         andThen (\<lambda>w1.
                    if existsSync sourcePath w1 \<and> sourcePath \<noteq> optimizedPath then
                      andThen (unlinkSync sourcePath)
                        (\<lambda>_. Media_save k m1 [FileUrl optimizedUrl]) w1
                    else ok m1 w1) (\<lambda>m2.
         ok \<lparr>res_status = 200, res_message = ''Image optimized successfully'',
             res_media =
               ImageOptimizedView k (fileUrl m2) (optimizedFileUrl m2) (isOptimized m2)
                 (fileSize m2)\<rparr>))))))"

text \<open>The branch for a video: the transcode is started and 202 is answered at once.\<close>

definition optimizeVideo ::
  "string \<Rightarrow> string \<Rightarrow> string \<Rightarrow> string \<Rightarrow> string \<Rightarrow> media \<Rightarrow> world \<Rightarrow> (err + response) \<times> world" where
  "optimizeVideo base baseUrl uid mediaType k m =
     (let optimizedFilename = ''opt_'' @ path_parse_name (fileName m) @ ''.mp4'';
          optimizedPath = getOptimizedPath base uid mediaType optimizedFilename;
          optimizedUrl =
            optimizedUrlOf baseUrl uid mediaType optimizedFilename;
          sourcePath = getUserFilePath base uid mediaType (fileName m)
      in andThen (ensureUserDirExists base uid (mediaType @ ''/optimized'')) (\<lambda>_.
         andThen (ffmpeg_launch (OptimizeTranscodeJob sourcePath optimizedPath k m optimizedUrl)) (\<lambda>_.
         ok \<lparr>res_status = 202, res_message = ''Video optimization started'',
             res_media = IdView k\<rparr>)))"

text \<open>media.controller, \<open>POST /api/media/:id/optimize\<close>.\<close>

definition optimizeMedia :: "string \<Rightarrow> sharp_outcome \<Rightarrow> request \<Rightarrow> world \<Rightarrow> response \<times> world" where
  "optimizeMedia base enc req w =
     (case req_user req of
        None \<Rightarrow>
          (\<lparr>res_status = 401, res_message = ''User not authenticated'', res_media = NoPayload\<rparr>, w)
      | Some uid \<Rightarrow>
          respond ''An error occurred optimizing media''
            (andThen (Media_findOne (req_id req) uid) (\<lambda>found.
               (case found of
                  None \<Rightarrow> throw (ApiError ''Media not found'' 404)
                | Some (k, m) \<Rightarrow>
                    if isOptimized m \<and> truthy_opt (optimizedFileUrl m) then
                      ok \<lparr>res_status = 200, res_message = ''Media already optimized'',
                          res_media = OptimizedView k (optimizedFileUrl m) (isOptimized m)\<rparr>
                    else
                      (let mediaType = mediaTypeOf (fileType m);
                           baseUrl = req_protocol req @ ''://'' @ req_host req
                       in if isImage (fileType m) then
                            (if \<not> endsWith (fileName m) ''.webp'' then
                               optimizeImage base enc baseUrl uid mediaType k m
                             else
                               andThen (Media_save k m [IsOptimized True]) (\<lambda>m1.
                               ok \<lparr>res_status = 200,
                                   res_message = ''Image already in optimal WebP format'',
                                   res_media = WebpView k (fileUrl m1) (isOptimized m1)\<rparr>))
                          else if isVideo (fileType m) then
                            optimizeVideo base baseUrl uid mediaType k m
                          else throw (ApiError ''File type not supported for optimization'' 400))))
               w))"

section \<open>Auxiliary notions for the proofs\<close>

text \<open>
  The leading slash and the normalised segments of the arguments \<open>ps\<close> of a
  \<open>path.join\<close>, used to state what joining further segments yields.
\<close>

definition lead :: "string list \<Rightarrow> string" where
  "lead ps = (if ps \<noteq> [] \<and> hd (hd ps) = CHR ''/'' then ''/'' else [])"

definition segsOf :: "string list \<Rightarrow> string list" where
  "segsOf ps = (if ps = [] then [] else normalizeString (hd (hd ps) \<noteq> CHR ''/'') (join_slash ps))"



section \<open>Notions used to state the claims\<close>





text \<open>The update calls recorded in a trace, oldest first.\<close>

fun dbUpdates :: "event list \<Rightarrow> (string \<times> fieldUpdate list) list" where
  "dbUpdates [] = []"
| "dbUpdates (DbUpdate k u # es) = (k, u) # dbUpdates es"
| "dbUpdates (e # es) = dbUpdates es"

text \<open>
  The update calls issued between a world and a later one, and the assignments of a
  list that change a value of a document.
\<close>

definition updatesDuring :: "world \<Rightarrow> world \<Rightarrow> (string \<times> fieldUpdate list) list" where
  "updatesDuring w w' = drop (length (dbUpdates (trace w))) (dbUpdates (trace w'))"

definition modifiedFields :: "media \<Rightarrow> fieldUpdate list \<Rightarrow> fieldUpdate list" where
  "modifiedFields d assigned = filter (\<lambda>f. \<not> field_holds f d) assigned"

section \<open>Concrete inputs\<close>

text \<open>An owner, an image upload, a video upload and a world holding both files, for the
  theorems stated at a concrete input.\<close>

definition owner1 :: string where
  "owner1 = ''64b7f0c2a1d3e4f5a6b7c8d9''"

definition png_upload :: multer_file where
  "png_upload = \<lparr>originalname = ''photo.png'', mimetype = ''image/png'', size_f = 2048,
     filename = ''f1.png'', path_f = ''uploads/64b7f0c2a1d3e4f5a6b7c8d9/images/f1.png''\<rparr>"

definition mov_upload :: multer_file where
  "mov_upload = \<lparr>originalname = ''clip.mov'', mimetype = ''video/quicktime'', size_f = 9000,
     filename = ''v1.mov'', path_f = ''uploads/64b7f0c2a1d3e4f5a6b7c8d9/videos/v1.mov''\<rparr>"

definition world0 :: world where
  "world0 = \<lparr>files = [''uploads/64b7f0c2a1d3e4f5a6b7c8d9/images/f1.png'' \<mapsto> 2048,
                       ''uploads/64b7f0c2a1d3e4f5a6b7c8d9/videos/v1.mov'' \<mapsto> 9000],
             dirs = {}, docs = Map.empty, users = {owner1}, jobs = [], trace = []\<rparr>"

definition request_of :: "multer_file \<Rightarrow> request" where
  "request_of f = \<lparr>req_file = Some f, req_user = Some owner1, req_userId = Some owner1,
     req_host = ''media.test'', req_protocol = ''https'', req_id = []\<rparr>"

text \<open>
  What lies outside the program during the video upload of the concrete theorems: a
  version-4 UUID from \<open>uuidv4()\<close> and the ObjectId of the new document.
\<close>

definition video_env :: upload_env where
  "video_env = \<lparr>enc_optimized = SharpOk 0, enc_thumbnail = SharpOk 0,
     uuid = ''9b2e4f6a-1c3d-4e5f-8a7b-0c9d8e7f6a5b'', newObjectId = ''650000000000000000000002''\<rparr>"

text \<open>The upload of \<open>clip.mov\<close> through each controller: the response and the world after it.\<close>

definition video_upload :: "response \<times> world" where
  "video_upload = uploadMedia ''./uploads'' video_env (request_of mov_upload) world0"

definition external_video_upload :: "response \<times> world" where
  "external_video_upload = external_uploadMedia ''./uploads'' video_env (request_of mov_upload) world0"

text \<open>
  A stored image record as an upload leaves it, with its two files, and the request that
  deletes it.
\<close>

definition stored_image :: media where
  "stored_image = \<lparr>fileName = ''f1.webp'', originalFileName = ''photo.png'',
     fileType = ''image/png'', fileSize = 700,
     fileUrl = ''https://media.test/uploads/64b7f0c2a1d3e4f5a6b7c8d9/images/optimized/f1.webp'',
     thumbnailUrl = Some ''https://media.test/uploads/64b7f0c2a1d3e4f5a6b7c8d9/thumbnails/thumb_f1.webp'',
     userId = owner1,
     optimizedFileUrl = Some ''https://media.test/uploads/64b7f0c2a1d3e4f5a6b7c8d9/images/optimized/f1.webp'',
     isOptimized = True\<rparr>"

definition world1 :: world where
  "world1 = \<lparr>files = [''uploads/64b7f0c2a1d3e4f5a6b7c8d9/images/optimized/f1.webp'' \<mapsto> 700,
                       ''uploads/64b7f0c2a1d3e4f5a6b7c8d9/thumbnails/thumb_f1.webp'' \<mapsto> 90],
             dirs = {}, docs = [''650000000000000000000001'' \<mapsto> stored_image],
             users = {owner1}, jobs = [], trace = []\<rparr>"

definition request_for :: "string \<Rightarrow> request" where
  "request_for mediaId = \<lparr>req_file = None, req_user = Some owner1, req_userId = Some owner1,
     req_host = ''media.test'', req_protocol = ''https'', req_id = mediaId\<rparr>"

text \<open>
  Two image records as an earlier version of the service may have left them (an upload
  of this version always stores an image as WebP with both fields set): one flagged
  optimized without an optimized locator, one not optimized; each with its file.
\<close>

definition flagged_image :: media where
  "flagged_image = \<lparr>fileName = ''a.png'', originalFileName = ''a.png'',
     fileType = ''image/png'', fileSize = 5000,
     fileUrl = ''https://media.test/uploads/64b7f0c2a1d3e4f5a6b7c8d9/images/a.png'',
     thumbnailUrl = None, userId = owner1, optimizedFileUrl = None, isOptimized = True\<rparr>"

definition plain_image :: media where
  "plain_image = \<lparr>fileName = ''b.png'', originalFileName = ''b.png'',
     fileType = ''image/png'', fileSize = 6000,
     fileUrl = ''https://media.test/uploads/64b7f0c2a1d3e4f5a6b7c8d9/images/b.png'',
     thumbnailUrl = None, userId = owner1, optimizedFileUrl = None, isOptimized = False\<rparr>"

definition world2 :: world where
  "world2 = \<lparr>files = [''uploads/64b7f0c2a1d3e4f5a6b7c8d9/images/a.png'' \<mapsto> 5000,
                       ''uploads/64b7f0c2a1d3e4f5a6b7c8d9/images/b.png'' \<mapsto> 6000],
             dirs = {}, docs = [''650000000000000000000003'' \<mapsto> flagged_image,
                                ''650000000000000000000004'' \<mapsto> plain_image],
             users = {owner1}, jobs = [], trace = []\<rparr>"






section \<open>Facts about \<open>path.join\<close>\<close>

lemma split_slash_not_Nil: "split_slash s \<noteq> []"
  by (induction s) (auto split: list.splits)

lemma split_slash_append: "split_slash (a @ CHR ''/'' # b) = split_slash a @ split_slash b"
proof (induction a)
  case Nil
  show ?case by simp
next
  case (Cons c a)
  obtain s ss where "split_slash a = s # ss"
    using split_slash_not_Nil [of a] by (cases "split_slash a") auto
  with Cons show ?case by simp
qed

lemma split_slash_plain: "CHR ''/'' \<notin> set s \<Longrightarrow> split_slash s = [s]"
  by (induction s) auto

lemma join_slash_snoc: "xs \<noteq> [] \<Longrightarrow> join_slash (xs @ [y]) = join_slash xs @ CHR ''/'' # y"
  by (induction xs rule: join_slash.induct) auto

lemma split_join_snoc:
  assumes "CHR ''/'' \<notin> set f"
  shows "split_slash (join_slash (ps @ [f])) = (if ps = [] then [] else split_slash (join_slash ps)) @ [f]"
proof (cases "ps = []")
  case True
  with assms show ?thesis by (simp add: split_slash_plain)
next
  case False
  then show ?thesis
    using assms by (simp add: join_slash_snoc split_slash_append split_slash_plain)
qed

lemma norm_seg_plain: "plainSegment s \<Longrightarrow> norm_seg a res s = s # res"
  by (auto simp: norm_seg_def plainSegment_def)

lemma last_join_slash_snoc: "f \<noteq> [] \<Longrightarrow> last (join_slash (ps @ [f])) = last f"
  by (cases "ps = []") (simp_all add: join_slash_snoc)

lemma hd_join_slash: "ps \<noteq> [] \<Longrightarrow> hd ps \<noteq> [] \<Longrightarrow> hd (join_slash ps) = hd (hd ps)"
  by (induction ps rule: join_slash.induct) auto

lemma path_join_snoc_plain:
  assumes f: "plainSegment f" and ne: "\<forall>p\<in>set ps. p \<noteq> []"
  shows "path_join (ps @ [f]) = lead ps @ join_slash (segsOf ps @ [f])"
proof -
  have fne: "f \<noteq> []" and fs: "CHR ''/'' \<notin> set f" using f by (auto simp: plainSegment_def)
  have parts: "filter (\<lambda>a. a \<noteq> []) (ps @ [f]) = ps @ [f]"
    using ne fne by (simp add: filter_id_conv)
  have jne: "join_slash (ps @ [f]) \<noteq> []"
    using fne by (cases "ps = []") (simp_all add: join_slash_snoc)
  have lst: "last (join_slash (ps @ [f])) \<noteq> CHR ''/''"
    using fs fne last_join_slash_snoc [OF fne, of ps] last_in_set [OF fne] by metis
  have pj: "path_join (ps @ [f]) = path_normalize (join_slash (ps @ [f]))"
    unfolding path_join_def Let_def parts by simp
  show ?thesis
  proof (cases "ps = []")
    case True
    have "hd f \<noteq> CHR ''/''" using fs fne by (cases f) auto
    moreover have "last f \<noteq> CHR ''/''" using lst True by simp
    ultimately show ?thesis
      unfolding pj using True f fne fs
      by (simp add: path_normalize_def normalizeString_def split_slash_plain
          norm_seg_plain lead_def segsOf_def)
  next
    case False
    then have hdne: "hd ps \<noteq> []" using ne by (cases ps) auto
    have hdj: "hd (join_slash (ps @ [f])) = hd (hd ps)"
      using False hdne hd_join_slash [of "ps @ [f]"] by simp
    have sp: "split_slash (join_slash (ps @ [f])) = split_slash (join_slash ps) @ [f]"
      using split_join_snoc [OF fs, of ps] False by simp
    have segs: "normalizeString a (join_slash (ps @ [f])) = normalizeString a (join_slash ps) @ [f]" for a
      by (simp add: normalizeString_def sp norm_seg_plain [OF f])
    show ?thesis
      unfolding pj path_normalize_def Let_def segs hdj
      using False jne lst by (simp add: lead_def segsOf_def)
  qed
qed

lemma lead_segs_snoc:
  assumes f: "plainSegment f" and ne: "\<forall>p\<in>set ps. p \<noteq> []"
  shows "lead (ps @ [f]) = lead ps \<and> segsOf (ps @ [f]) = segsOf ps @ [f]"
proof -
  have fne: "f \<noteq> []" and fs: "CHR ''/'' \<notin> set f" using f by (auto simp: plainSegment_def)
  show ?thesis
  proof (cases "ps = []")
    case True
    have "hd f \<noteq> CHR ''/''" using fs fne by (cases f) auto
    then show ?thesis
      using True f fs
      by (simp add: lead_def segsOf_def normalizeString_def split_slash_plain norm_seg_plain)
  next
    case False
    have sp: "split_slash (join_slash (ps @ [f])) = split_slash (join_slash ps) @ [f]"
      using split_join_snoc [OF fs, of ps] False by simp
    show ?thesis
      using False by (simp add: lead_def segsOf_def normalizeString_def sp norm_seg_plain [OF f])
  qed
qed

lemma lead_segs_plain_tail:
  assumes ne: "\<forall>p\<in>set ps. p \<noteq> []" and pl: "\<forall>y\<in>set ys. plainSegment y"
  shows "lead (ps @ ys) = lead ps \<and> segsOf (ps @ ys) = segsOf ps @ ys"
  using pl
proof (induction ys rule: rev_induct)
  case Nil
  show ?case by simp
next
  case (snoc y ys)
  have "\<forall>p\<in>set (ps @ ys). p \<noteq> []"
    using ne snoc.prems by (auto simp: plainSegment_def)
  then have "lead ((ps @ ys) @ [y]) = lead (ps @ ys) \<and> segsOf ((ps @ ys) @ [y]) = segsOf (ps @ ys) @ [y]"
    using lead_segs_snoc [of y "ps @ ys"] snoc.prems by simp
  with snoc show ?case by simp
qed

lemma path_join_plain_tail:
  assumes ne: "\<forall>p\<in>set ps. p \<noteq> []" and pl: "\<forall>y\<in>set ys. plainSegment y" and "ys \<noteq> []"
  shows "path_join (ps @ ys) = lead ps @ join_slash (segsOf ps @ ys)"
proof -
  obtain zs z where ys: "ys = zs @ [z]"
    using \<open>ys \<noteq> []\<close> by (cases ys rule: rev_cases) auto
  have z: "plainSegment z" and zs: "\<forall>y\<in>set zs. plainSegment y" using pl ys by auto
  have "\<forall>p\<in>set (ps @ zs). p \<noteq> []" using ne zs by (auto simp: plainSegment_def)
  then have "path_join ((ps @ zs) @ [z]) = lead (ps @ zs) @ join_slash (segsOf (ps @ zs) @ [z])"
    using path_join_snoc_plain [OF z] by blast
  then show ?thesis
    using lead_segs_plain_tail [OF ne zs] ys by simp
qed

lemma path_join_plain_snoc:
  assumes ne: "\<forall>p\<in>set ps. p \<noteq> []" and pl: "\<forall>y\<in>set ys. plainSegment y" and "ys \<noteq> []"
    and f: "plainSegment f"
  shows "path_join (ps @ ys @ [f]) = path_join (ps @ ys) @ CHR ''/'' # f"
proof -
  have "path_join (ps @ (ys @ [f])) = lead ps @ join_slash (segsOf ps @ ys @ [f])"
    using path_join_plain_tail [OF ne, of "ys @ [f]"] pl f by simp
  moreover have "join_slash ((segsOf ps @ ys) @ [f]) = join_slash (segsOf ps @ ys) @ CHR ''/'' # f"
    using \<open>ys \<noteq> []\<close> by (intro join_slash_snoc) simp
  ultimately show ?thesis
    using path_join_plain_tail [OF ne pl \<open>ys \<noteq> []\<close>] by simp
qed

lemma path_join_filter: "path_join (filter (\<lambda>a. a \<noteq> []) ps) = path_join ps"
  by (simp add: path_join_def)

lemma path_basename_snoc:
  assumes "f \<noteq> []" "CHR ''/'' \<notin> set f" "X = [] \<or> last X = CHR ''/''"
  shows "path_basename (X @ f) = f"
proof -
  have l: "last f \<noteq> CHR ''/''" using assms last_in_set by metis
  have h: "hd (rev f) \<noteq> CHR ''/''" using l assms(1) by (simp add: hd_rev)
  have d: "dropWhile (\<lambda>c. c = CHR ''/'') (rev f @ rev X) = rev f @ rev X"
    using h assms(1) by (cases "rev f") auto
  have t1: "takeWhile (\<lambda>c. c \<noteq> CHR ''/'') (rev f @ rev X) = rev f @ takeWhile (\<lambda>c. c \<noteq> CHR ''/'') (rev X)"
  proof (rule takeWhile_append2)
    fix c assume "c \<in> set (rev f)"
    then show "c \<noteq> CHR ''/''" using assms(2) by auto
  qed
  have t2: "takeWhile (\<lambda>c. c \<noteq> CHR ''/'') (rev X) = []"
    using assms(3) by (cases X rule: rev_cases) auto
  show ?thesis by (simp add: path_basename_def d t1 t2)
qed

lemma path_basename_join:
  assumes f: "plainSegment f"
  shows "path_basename (path_join (ps @ [f])) = f"
proof -
  have fne: "f \<noteq> []" and fs: "CHR ''/'' \<notin> set f" using f by (auto simp: plainSegment_def)
  define qs where "qs = filter (\<lambda>a. a \<noteq> []) ps"
  have ne: "\<forall>p\<in>set qs. p \<noteq> []" by (simp add: qs_def)
  have "path_join (ps @ [f]) = path_join (qs @ [f])"
    using path_join_filter [of "ps @ [f]"] fne by (simp add: qs_def)
  also have "\<dots> = lead qs @ join_slash (segsOf qs @ [f])"
    by (rule path_join_snoc_plain [OF f ne])
  also have "\<dots> = (lead qs @ (if segsOf qs = [] then [] else join_slash (segsOf qs) @ ''/'')) @ f"
    by (simp add: join_slash_snoc)
  finally have eq: "path_join (ps @ [f]) = (lead qs @ (if segsOf qs = [] then [] else join_slash (segsOf qs) @ ''/'')) @ f" .
  show ?thesis
    unfolding eq by (rule path_basename_snoc [OF fne fs]) (auto simp: lead_def)
qed

lemma path_basename_no_slash: "CHR ''/'' \<notin> set (path_basename p)"
proof
  assume "CHR ''/'' \<in> set (path_basename p)"
  then have "CHR ''/'' \<in> set (takeWhile (\<lambda>c. c \<noteq> CHR ''/'') (dropWhile (\<lambda>c. c = CHR ''/'') (rev p)))"
    by (simp add: path_basename_def)
  then show False using set_takeWhileD by fastforce
qed

lemma path_parse_name_no_slash: "CHR ''/'' \<notin> set (path_parse_name p)"
proof -
  have sub: "set (path_parse_name p) \<subseteq> set (path_basename p)"
  proof -
    have "set (tl (dropWhile (\<lambda>c. c \<noteq> CHR ''.'') (rev (path_basename p)))) \<subseteq> set (rev (path_basename p))"
    proof
      fix c assume c: "c \<in> set (tl (dropWhile (\<lambda>c. c \<noteq> CHR ''.'') (rev (path_basename p))))"
      then have "c \<in> set (dropWhile (\<lambda>c. c \<noteq> CHR ''.'') (rev (path_basename p)))"
        by (cases "dropWhile (\<lambda>c. c \<noteq> CHR ''.'') (rev (path_basename p))") auto
      then show "c \<in> set (rev (path_basename p))" by (rule set_dropWhileD)
    qed
    then show ?thesis by (auto simp: path_parse_name_def Let_def)
  qed
  then show ?thesis using path_basename_no_slash [of p] by blast
qed

lemma plain_with_extension:
  assumes "CHR ''/'' \<notin> set n" "CHR ''/'' \<notin> set e" "length e \<ge> 3"
  shows "plainSegment (n @ e)"
proof -
  have "length (n @ e) \<ge> 3" using assms(3) by simp
  then have "n @ e \<noteq> []" "n @ e \<noteq> ''.''" "n @ e \<noteq> ''..''"
    by (auto simp del: append_is_Nil_conv dest!: arg_cong [where f = length])
  then show ?thesis using assms by (simp add: plainSegment_def)
qed

lemma seg_prefix_eq:
  "CHR ''/'' \<notin> set a \<Longrightarrow> CHR ''/'' \<notin> set b \<Longrightarrow> prefix (a @ CHR ''/'' # x) (b @ CHR ''/'' # y) \<Longrightarrow> a = b"
proof (induction a arbitrary: b)
  case Nil
  then show ?case by (cases b) auto
next
  case (Cons c a)
  then show ?case by (cases b) auto
qed

lemma BASE_UPLOAD_PATH_not_empty: "BASE_UPLOAD_PATH env \<noteq> []"
  by (simp add: BASE_UPLOAD_PATH_def split: option.splits)

lemma userDirOf_shape:
  assumes "base \<noteq> []" "plainSegment x"
  shows "userDirOf base x =
           (lead [base] @ (if segsOf [base] = [] then [] else join_slash (segsOf [base]) @ ''/'')) @ x"
proof -
  have "path_join ([base] @ [x]) = lead [base] @ join_slash (segsOf [base] @ [x])"
    using assms by (intro path_join_snoc_plain) auto
  then show ?thesis by (simp add: userDirOf_def join_slash_snoc)
qed

lemma under_userDir:
  assumes b: "base \<noteq> []" and o: "plainSegment owner" and ys: "\<forall>y\<in>set ys. plainSegment y"
  shows "path_join ([base, owner] @ ys) = userDirOf base owner @ concat (map (\<lambda>y. CHR ''/'' # y) ys)"
  using ys
proof (induction ys rule: rev_induct)
  case Nil
  show ?case by (simp add: userDirOf_def)
next
  case (snoc y ys)
  have "path_join ([base] @ (owner # ys) @ [y]) = path_join ([base] @ (owner # ys)) @ CHR ''/'' # y"
    using b o snoc.prems by (intro path_join_plain_snoc) auto
  with snoc show ?case by simp
qed

lemma not_under_other_owner:
  assumes b: "base \<noteq> []" and o: "plainSegment owner" and x: "plainSegment other" and ne: "other \<noteq> owner"
  shows "\<not> prefix (userDirOf base other @ ''/'') (userDirOf base owner @ CHR ''/'' # rest)"
proof
  assume p: "prefix (userDirOf base other @ ''/'') (userDirOf base owner @ CHR ''/'' # rest)"
  define P where "P = lead [base] @ (if segsOf [base] = [] then [] else join_slash (segsOf [base]) @ ''/'')"
  have "userDirOf base other = P @ other" "userDirOf base owner = P @ owner"
    using userDirOf_shape [OF b] o x by (simp_all add: P_def)
  with p have "prefix (other @ CHR ''/'' # []) (owner @ CHR ''/'' # rest)" by simp
  then have "other = owner"
    using seg_prefix_eq [of other owner "[]" rest] o x by (simp add: plainSegment_def)
  with ne show False by simp
qed

lemma userDirOf_normal_base:
  assumes l: "last base \<noteq> CHR ''/''" and n: "path_normalize base \<noteq> ''.''" "path_normalize base \<noteq> ''/''"
    and o: "plainSegment owner"
  shows "userDirOf base owner = path_normalize base @ ''/'' @ owner"
proof -
  have b: "base \<noteq> []" using n by (auto simp: path_normalize_def)
  have s: "segsOf [base] = normalizeString (hd base \<noteq> CHR ''/'') base" by (simp add: segsOf_def)
  have ne: "segsOf [base] \<noteq> []"
    using n b l by (auto simp: path_normalize_def Let_def s split: if_splits)
  have "path_normalize base = lead [base] @ join_slash (segsOf [base])"
    using b l ne by (simp add: path_normalize_def Let_def s lead_def)
  then show ?thesis using userDirOf_shape [OF b o] ne by simp
qed

section \<open>Classification\<close>

text \<open>
  Claim C8.  For every MIME type string the classification by \<open>isImage\<close> and \<open>isVideo\<close>
  yields the image category exactly when the string starts with \<open>image/\<close>, the video
  category exactly when it starts with \<open>video/\<close>, and the document category in every
  other case.  The classifiers are total functions of the string alone.
\<close>

theorem classification_by_prefix:
  "isImage t = prefix ''image/'' t \<and> isVideo t = prefix ''video/'' t
   \<and> (mediaTypeOf t = ''images'') = prefix ''image/'' t
   \<and> (mediaTypeOf t = ''videos'') = prefix ''video/'' t
   \<and> (mediaTypeOf t = ''documents'') = (\<not> prefix ''image/'' t \<and> \<not> prefix ''video/'' t)"
  by (auto simp: isImage_def isVideo_def mediaTypeOf_def startsWith_def prefix_def)

text \<open>
  Claim C10.  For every MIME type an upload route lets through (the file filter of
  either route), the directory name \<open>uploadMedia\<close> computes with the prefixes \<open>image\<close>
  and \<open>video\<close> is the category of the branch \<open>isImage\<close>/\<open>isVideo\<close> select, and is the
  directory multer stored the file in: the name is \<open>images\<close> exactly when the image
  branch runs and \<open>videos\<close> exactly when the video branch runs.
\<close>

theorem upload_directory_agrees_with_branch:
  assumes "fileFilter t \<or> externalFileFilter t"
  shows "uploadMediaType t = mediaTypeOf t \<and> storageMediaType t = mediaTypeOf t
         \<and> (uploadMediaType t = ''images'') = isImage t
         \<and> (uploadMediaType t = ''videos'') = isVideo t"
proof -
  have "prefix ''image/'' t \<or> prefix ''video/'' t \<or> (\<not> prefix ''image'' t \<and> \<not> prefix ''video'' t)"
    using assms
    by (auto simp: fileFilter_def externalFileFilter_def allowedImages_def
        allowedVideos_def allowedDocuments_def startsWith_def)
  then show ?thesis
    by (auto simp: uploadMediaType_def mediaTypeOf_def storageMediaType_def isImage_def
        isVideo_def startsWith_def prefix_def)
qed

text \<open>The theorem at \<open>image/png\<close>.\<close>

theorem upload_directory_agrees_with_branch_witness:
  "fileFilter ''image/png'' \<and> uploadMediaType ''image/png'' = mediaTypeOf ''image/png''
   \<and> storageMediaType ''image/png'' = ''images'' \<and> isImage ''image/png''"
  using upload_directory_agrees_with_branch [of "''image/png''"]
  by (simp add: fileFilter_def allowedImages_def mediaTypeOf_def isImage_def startsWith_def)

section \<open>Storage layout\<close>

text \<open>
  Claim C9, amended.  For an owner id, a category and a file name that are single path
  segments, the three resolvers return the owner's directory followed by
  \<open>/category/filename\<close>, \<open>/category/optimized/filename\<close> and \<open>/thumbnails/filename\<close>; no
  such path lies under the directory of another owner; and the owner's directory is
  the normalised base followed by \<open>/ownerId\<close> (for a base without a trailing slash whose
  normal form is neither \<open>.\<close> nor \<open>/\<close>).
\<close>

theorem storage_paths_under_owner_directory:
  assumes "base \<noteq> []" "plainSegment owner" "plainSegment category" "plainSegment fname"
    and "plainSegment other" "other \<noteq> owner"
  shows "getUserFilePath base owner category fname
           = userDirOf base owner @ ''/'' @ category @ ''/'' @ fname
       \<and> getOptimizedPath base owner category fname
           = userDirOf base owner @ ''/'' @ category @ ''/optimized/'' @ fname
       \<and> getThumbnailPath base owner fname
           = userDirOf base owner @ ''/thumbnails/'' @ fname
       \<and> \<not> prefix (userDirOf base other @ ''/'') (getUserFilePath base owner category fname)
       \<and> \<not> prefix (userDirOf base other @ ''/'') (getOptimizedPath base owner category fname)
       \<and> \<not> prefix (userDirOf base other @ ''/'') (getThumbnailPath base owner fname)
       \<and> (last base \<noteq> CHR ''/'' \<and> path_normalize base \<noteq> ''.'' \<and> path_normalize base \<noteq> ''/''
            \<longrightarrow> userDirOf base owner = path_normalize base @ ''/'' @ owner)"
proof -
  have plo: "plainSegment ''optimized''" and plt: "plainSegment ''thumbnails''"
    by (simp_all add: plainSegment_def)
  have 1: "getUserFilePath base owner category fname
             = userDirOf base owner @ ''/'' @ category @ ''/'' @ fname"
    using under_userDir [OF assms(1,2), of "[category, fname]"] assms(3,4)
    by (simp add: getUserFilePath_def)
  have 2: "getOptimizedPath base owner category fname
             = userDirOf base owner @ ''/'' @ category @ ''/optimized/'' @ fname"
    using under_userDir [OF assms(1,2), of "[category, ''optimized'', fname]"] assms(3,4) plo
    by (simp add: getOptimizedPath_def)
  have 3: "getThumbnailPath base owner fname = userDirOf base owner @ ''/thumbnails/'' @ fname"
    using under_userDir [OF assms(1,2), of "[''thumbnails'', fname]"] assms(4) plt
    by (simp add: getThumbnailPath_def)
  have 4: "\<not> prefix (userDirOf base other @ ''/'') (userDirOf base owner @ CHR ''/'' # rest)" for rest
    by (rule not_under_other_owner [OF assms(1,2,5,6)])
  have 5: "last base \<noteq> CHR ''/'' \<and> path_normalize base \<noteq> ''.'' \<and> path_normalize base \<noteq> ''/''
            \<longrightarrow> userDirOf base owner = path_normalize base @ ''/'' @ owner"
    using userDirOf_normal_base [OF _ _ _ assms(2)] by blast
  show ?thesis
    unfolding 1 2 3 using 4 5 by simp
qed

text \<open>The theorem at the default base \<open>./uploads\<close>, whose normal form is \<open>uploads\<close>.\<close>

theorem storage_paths_under_owner_directory_witness:
  "BASE_UPLOAD_PATH None \<noteq> [] \<and> plainSegment ''u1'' \<and> plainSegment ''images''
   \<and> plainSegment ''a.png'' \<and> plainSegment ''u2'' \<and> ''u2'' \<noteq> ''u1''
   \<and> getUserFilePath (BASE_UPLOAD_PATH None) ''u1'' ''images'' ''a.png'' = ''uploads/u1/images/a.png''
   \<and> getOptimizedPath (BASE_UPLOAD_PATH None) ''u1'' ''images'' ''a.png''
       = ''uploads/u1/images/optimized/a.png''
   \<and> getThumbnailPath (BASE_UPLOAD_PATH None) ''u1'' ''a.png'' = ''uploads/u1/thumbnails/a.png''
   \<and> \<not> prefix (userDirOf (BASE_UPLOAD_PATH None) ''u2'' @ ''/'')
         (getUserFilePath (BASE_UPLOAD_PATH None) ''u1'' ''images'' ''a.png'')"
  using storage_paths_under_owner_directory
          [of "BASE_UPLOAD_PATH None" "''u1''" "''images''" "''a.png''" "''u2''"]
  by (simp add: BASE_UPLOAD_PATH_def plainSegment_def userDirOf_def path_join_def
      path_normalize_def normalizeString_def norm_seg_def)

text \<open>
  Claim C9 as stated fails for a file name with \<open>..\<close> segments: \<open>path.join\<close> resolves
  them, and the path of a request of owner \<open>u1\<close> lies under the directory of \<open>u2\<close>.
\<close>

theorem path_traversal_counterexample:
  "getUserFilePath (BASE_UPLOAD_PATH None) ''u1'' ''images'' ''../../u2/images/x.png''
     = ''uploads/u2/images/x.png''
   \<and> userDirOf (BASE_UPLOAD_PATH None) ''u1'' = ''uploads/u1''
   \<and> userDirOf (BASE_UPLOAD_PATH None) ''u2'' = ''uploads/u2''
   \<and> \<not> prefix (userDirOf (BASE_UPLOAD_PATH None) ''u1'' @ ''/'')
         (getUserFilePath (BASE_UPLOAD_PATH None) ''u1'' ''images'' ''../../u2/images/x.png'')
   \<and> prefix (userDirOf (BASE_UPLOAD_PATH None) ''u2'' @ ''/'')
         (getUserFilePath (BASE_UPLOAD_PATH None) ''u1'' ''images'' ''../../u2/images/x.png'')"
  by (simp add: BASE_UPLOAD_PATH_def getUserFilePath_def userDirOf_def path_join_def
      path_normalize_def normalizeString_def norm_seg_def)

section \<open>Facts about the steps of the handlers\<close>

lemmas step_defs = ok_def throw_def andThen_def emit_def existsSync_def unlinkSync_def statSync_def
  renameSync_def mkdirSync_def ensureUserDirExists_def sharp_toFile_def ffmpeg_launch_def

lemmas path_defs = getUserFilePath_def getThumbnailPath_def getOptimizedPath_def userDirOf_def
  path_join_def path_normalize_def normalizeString_def norm_seg_def path_parse_name_def
  path_basename_def

lemmas url_defs = fileUrlOf_def optimizedUrlOf_def thumbnailUrlOf_def

lemmas class_defs = isImage_def isVideo_def startsWith_def endsWith_def uploadMediaType_def
  mediaTypeOf_def truthy_def truthy_opt_def or_else_def

lemmas store_defs = Media_create_def Media_findOne_def Media_findByIdAndUpdate_def Media_save_def
  Media_deleteOne_def castObjectId_def castError_def lowerHex_def apply_fields_def

lemmas upload_defs = uploadMedia_def external_uploadMedia_def imageBranch_def videoBranch_def
  external_videoBranch_def documentBranch_def createRecord_def respond_def err_status_def
  err_message_def

lemmas input_defs = owner1_def png_upload_def mov_upload_def world0_def request_of_def

lemma ensureUserDirExists_ex:
  "\<exists>p w1. ensureUserDirExists base uid sub w = (Inr p, w1)
     \<and> files w1 = files w \<and> docs w1 = docs w \<and> jobs w1 = jobs w \<and> users w1 = users w"
  by (simp add: ensureUserDirExists_def Let_def andThen_def mkdirSync_def ok_def emit_def)

lemma ensureUserDirExists_ok:
  obtains p w1 where "ensureUserDirExists base uid sub w = (Inr p, w1)"
    and "files w1 = files w" and "docs w1 = docs w" and "jobs w1 = jobs w" and "users w1 = users w"
  using ensureUserDirExists_ex [of base uid sub w] by blast

lemma imageBranch_Inr:
  assumes "imageBranch base env baseUrl uid mediaType file w = (Inr v, w')"
  shows "\<exists>n k. enc_optimized env = SharpOk n \<and> enc_thumbnail env = SharpOk k
           \<and> v_optimizedSize v = n \<and> v_isOptimized v
           \<and> v_optimizedFileUrl v = Some (v_fileUrl v)
           \<and> v_newFileName v = path_parse_name (filename file) @ ''.webp''
           \<and> path_f file \<noteq> getOptimizedPath base uid mediaType (v_newFileName v)
           \<and> path_f file \<noteq> getThumbnailPath base uid (''thumb_'' @ v_newFileName v)
           \<and> files w' = (files w)
                (getOptimizedPath base uid mediaType (v_newFileName v) := Some n,
                 getThumbnailPath base uid (''thumb_'' @ v_newFileName v) := Some k,
                 path_f file := None)
           \<and> docs w' = docs w \<and> jobs w' = jobs w"
proof -
  obtain p w1 where e: "ensureUserDirExists base uid (mediaType @ ''/optimized'') w = (Inr p, w1)"
    and f1: "files w1 = files w" and d1: "docs w1 = docs w" and j1: "jobs w1 = jobs w"
    by (rule ensureUserDirExists_ok)
  show ?thesis
    using assms f1 d1 j1
    unfolding imageBranch_def Let_def
    by (auto simp: andThen_def e sharp_toFile_def statSync_def existsSync_def unlinkSync_def
        ok_def throw_def emit_def split: if_splits sharp_outcome.splits option.splits)
qed

lemma imageBranch_Inl:
  assumes "imageBranch base env baseUrl uid mediaType file w = (Inl e, w')"
  shows "err_status e = 500 \<and> docs w' = docs w \<and> jobs w' = jobs w
         \<and> files w' (path_f file) = files w (path_f file)
         \<and> (\<forall>n. enc_optimized env = SharpOk n \<and> files w (path_f file) \<noteq> None
                \<and> path_f file \<noteq> getOptimizedPath base uid mediaType (path_parse_name (filename file) @ ''.webp'')
                \<and> getThumbnailPath base uid (''thumb_'' @ path_parse_name (filename file) @ ''.webp'')
                     \<noteq> getOptimizedPath base uid mediaType (path_parse_name (filename file) @ ''.webp'')
              \<longrightarrow> files w' (getOptimizedPath base uid mediaType (path_parse_name (filename file) @ ''.webp'')) = Some n)"
proof -
  obtain p w1 where e: "ensureUserDirExists base uid (mediaType @ ''/optimized'') w = (Inr p, w1)"
    and f1: "files w1 = files w" and d1: "docs w1 = docs w" and j1: "jobs w1 = jobs w"
    by (rule ensureUserDirExists_ok)
  show ?thesis
    using assms f1 d1 j1
    unfolding imageBranch_def Let_def
    by (auto simp: andThen_def e sharp_toFile_def statSync_def existsSync_def unlinkSync_def
        ok_def throw_def emit_def err_status_def split: if_splits sharp_outcome.splits option.splits)
qed

lemma imageBranch_fails:
  assumes "(\<exists>r. enc_optimized env = SharpFail r) \<or> (\<exists>r. enc_thumbnail env = SharpFail r)"
  shows "\<exists>e w'. imageBranch base env baseUrl uid mediaType file w = (Inl e, w')"
proof (cases "imageBranch base env baseUrl uid mediaType file w")
  case (Pair r w')
  show ?thesis
  proof (cases r)
    case (Inl e)
    with Pair show ?thesis by simp
  next
    case (Inr v)
    with Pair have "imageBranch base env baseUrl uid mediaType file w = (Inr v, w')" by simp
    from imageBranch_Inr [OF this] assms show ?thesis by auto
  qed
qed

lemma createRecord_Inl:
  "createRecord env uid file v w = (Inl e, w') \<Longrightarrow> err_status e = 500 \<and> w' = w"
  by (auto simp: createRecord_def andThen_def Media_create_def ok_def throw_def err_status_def
      split: if_splits)

lemma createRecord_Inr:
  assumes "createRecord env uid file v w = (Inr resp, w')"
  shows "res_status resp = 201
     \<and> res_media resp = MediaView (newObjectId env)
          \<lparr>fileName = v_newFileName v, originalFileName = originalname file,
           fileType = mimetype file, fileSize = v_optimizedSize v, fileUrl = v_fileUrl v,
           thumbnailUrl = v_thumbnailUrl v, userId = uid,
           optimizedFileUrl = v_optimizedFileUrl v, isOptimized = v_isOptimized v\<rparr>
     \<and> docs w' = (docs w)(newObjectId env := Some
          \<lparr>fileName = v_newFileName v, originalFileName = originalname file,
           fileType = mimetype file, fileSize = v_optimizedSize v, fileUrl = v_fileUrl v,
           thumbnailUrl = v_thumbnailUrl v, userId = uid,
           optimizedFileUrl = v_optimizedFileUrl v, isOptimized = v_isOptimized v\<rparr>)
     \<and> files w' = files w \<and> jobs w' = jobs w \<and> docs w (newObjectId env) = None"
  using assms
  by (auto simp: createRecord_def andThen_def Media_create_def ok_def throw_def emit_def
      split: if_splits)

lemma respond_status_201:
  assumes "respond dflt r = (resp, w')" "res_status resp = 201"
    and "\<And>e w1. r = (Inl e, w1) \<Longrightarrow> err_status e \<noteq> 201"
  shows "r = (Inr resp, w')"
  using assms by (cases r) (auto simp: respond_def split: sum.splits)

lemma andThen_cases:
  assumes "andThen m f w = (r, w')"
  obtains (fails) e where "m w = (Inl e, w')" "r = Inl e"
    | (continues) x w1 where "m w = (Inr x, w1)" "f x w1 = (r, w')"
  using assms by (auto simp: andThen_def split: prod.splits sum.splits)

lemma isImage_uploadMediaType: "isImage t \<Longrightarrow> uploadMediaType t = ''images''"
  by (auto simp: isImage_def uploadMediaType_def startsWith_def prefix_def)

lemma isVideo_not_isImage: "isVideo t \<Longrightarrow> \<not> isImage t"
  by (auto simp: isImage_def isVideo_def startsWith_def prefix_def)

lemma isVideo_uploadMediaType: "isVideo t \<Longrightarrow> uploadMediaType t = ''videos''"
  by (auto simp: isVideo_def uploadMediaType_def startsWith_def prefix_def)

text \<open>What an upload of an image comes down to, for either controller.\<close>

lemma image_upload_core:
  assumes img: "isImage (mimetype file)" and f: "req_file req = Some file"
    and run: "uploadMedia base env req w = (resp, w') \<or> external_uploadMedia base env req w = (resp, w')"
    and st: "res_status resp \<noteq> 401"
  shows "\<exists>uid. respond ''An error occurred uploading media''
            (andThen (imageBranch base env (''https://'' @ req_host req) uid ''images'' file)
               (createRecord env uid file) w) = (resp, w')"
  using run
proof
  assume "uploadMedia base env req w = (resp, w')"
  then show ?thesis
    using img f st
    by (auto simp: uploadMedia_def Let_def isImage_uploadMediaType split: option.splits)
next
  assume "external_uploadMedia base env req w = (resp, w')"
  then show ?thesis
    using img f st
    by (auto simp: external_uploadMedia_def Let_def isImage_uploadMediaType respond_def throw_def
        err_status_def split: if_splits)
qed

lemma thumb_opt_distinct:
  assumes "CHR ''/'' \<notin> set n"
  shows "getThumbnailPath base uid (''thumb_'' @ n @ ''.webp'') \<noteq> getOptimizedPath base uid mt (n @ ''.webp'')"
proof
  assume eq: "getThumbnailPath base uid (''thumb_'' @ n @ ''.webp'') = getOptimizedPath base uid mt (n @ ''.webp'')"
  have p1: "plainSegment (n @ ''.webp'')"
    using assms by (intro plain_with_extension) auto
  have p2: "plainSegment ((''thumb_'' @ n) @ ''.webp'')"
    using assms by (intro plain_with_extension) auto
  have "path_basename (path_join ([base, uid, mt, ''optimized''] @ [n @ ''.webp''])) = n @ ''.webp''"
    by (rule path_basename_join [OF p1])
  moreover have "path_basename (path_join ([base, uid, ''thumbnails''] @ [(''thumb_'' @ n) @ ''.webp''])) = (''thumb_'' @ n) @ ''.webp''"
    by (rule path_basename_join [OF p2])
  ultimately have "(''thumb_'' @ n) @ ''.webp'' = n @ ''.webp''"
    using eq by (simp add: getThumbnailPath_def getOptimizedPath_def)
  then have "length ((''thumb_'' @ n) @ ''.webp'') = length (n @ ''.webp'')" by (rule arg_cong)
  then show False by simp
qed

section \<open>Image uploads\<close>

text \<open>
  Claim C2.  For every accepted image upload (status 201, through either controller)
  the returned record is the stored one, has \<open>isOptimized = true\<close>, its \<open>fileUrl\<close> is its
  \<open>optimizedFileUrl\<close>, its \<open>fileSize\<close> is the number of bytes the encoder wrote and the
  size of the file now at the optimized path, and no file is left at the path of the
  uploaded original.
\<close>

theorem image_upload_record_optimized:
  assumes img: "isImage (mimetype file)" and f: "req_file req = Some file"
    and run: "uploadMedia base env req w = (resp, w') \<or> external_uploadMedia base env req w = (resp, w')"
    and acc: "res_status resp = 201"
  shows "\<exists>k d. res_media resp = MediaView k d \<and> docs w' k = Some d
           \<and> isOptimized d \<and> optimizedFileUrl d = Some (fileUrl d)
           \<and> fileName d = path_parse_name (filename file) @ ''.webp''
           \<and> enc_optimized env = SharpOk (fileSize d)
           \<and> files w' (getOptimizedPath base (userId d) ''images'' (fileName d)) = Some (fileSize d)
           \<and> files w' (path_f file) = None"
proof -
  obtain uid where r: "respond ''An error occurred uploading media''
            (andThen (imageBranch base env (''https://'' @ req_host req) uid ''images'' file)
               (createRecord env uid file) w) = (resp, w')"
    using image_upload_core [OF img f run] acc by auto
  have "andThen (imageBranch base env (''https://'' @ req_host req) uid ''images'' file)
               (createRecord env uid file) w = (Inr resp, w')"
  proof (rule respond_status_201 [OF r acc])
    fix e w1
    assume "andThen (imageBranch base env (''https://'' @ req_host req) uid ''images'' file)
               (createRecord env uid file) w = (Inl e, w1)"
    then have "err_status e = 500"
      by (cases rule: andThen_cases) (auto dest: imageBranch_Inl createRecord_Inl)
    then show "err_status e \<noteq> 201" by simp
  qed
  then obtain v w1 where b: "imageBranch base env (''https://'' @ req_host req) uid ''images'' file w = (Inr v, w1)"
    and c: "createRecord env uid file v w1 = (Inr resp, w')"
    by (cases rule: andThen_cases) auto
  have ns: "CHR ''/'' \<notin> set (path_parse_name (filename file))" by (rule path_parse_name_no_slash)
  show ?thesis
    using imageBranch_Inr [OF b] createRecord_Inr [OF c] thumb_opt_distinct [OF ns, of base uid "''images''"]
    by auto
qed

text \<open>The theorem at the upload of \<open>photo.png\<close> through media.controller.\<close>

theorem image_upload_record_optimized_witness:
  "isImage (mimetype png_upload) \<and> req_file (request_of png_upload) = Some png_upload
   \<and> res_status (fst (uploadMedia ''./uploads''
        \<lparr>enc_optimized = SharpOk 700, enc_thumbnail = SharpOk 90, uuid = ''x'', newObjectId = ''650000000000000000000001''\<rparr>
        (request_of png_upload) world0)) = 201
   \<and> (\<exists>k d. res_media (fst (uploadMedia ''./uploads''
        \<lparr>enc_optimized = SharpOk 700, enc_thumbnail = SharpOk 90, uuid = ''x'', newObjectId = ''650000000000000000000001''\<rparr>
        (request_of png_upload) world0)) = MediaView k d \<and> isOptimized d \<and> fileSize d = 700)"
proof -
  let ?env = "\<lparr>enc_optimized = SharpOk 700, enc_thumbnail = SharpOk 90, uuid = ''x'', newObjectId = ''650000000000000000000001''\<rparr>"
  let ?r = "uploadMedia ''./uploads'' ?env (request_of png_upload) world0"
  have img: "isImage (mimetype png_upload)"
    by (simp add: png_upload_def isImage_def startsWith_def)
  have f: "req_file (request_of png_upload) = Some png_upload" by (simp add: request_of_def)
  have st: "res_status (fst ?r) = 201"
    by (simp add: upload_defs input_defs class_defs url_defs step_defs path_defs store_defs Let_def)
  have run: "uploadMedia ''./uploads'' ?env (request_of png_upload) world0 = (fst ?r, snd ?r)
             \<or> external_uploadMedia ''./uploads'' ?env (request_of png_upload) world0 = (fst ?r, snd ?r)"
    by simp
  from image_upload_record_optimized [OF img f run st] img f st
  show ?thesis by auto
qed

section \<open>Failed image uploads\<close>

lemma image_upload_core_authenticated:
  assumes img: "isImage (mimetype file)" and f: "req_file req = Some file"
    and run: "(req_user req = Some uid \<and> uploadMedia base env req w = (resp, w'))
            \<or> (req_userId req = Some uid \<and> uid \<noteq> [] \<and> uid \<in> users w
                 \<and> external_uploadMedia base env req w = (resp, w'))"
  shows "respond ''An error occurred uploading media''
            (andThen (imageBranch base env (''https://'' @ req_host req) uid ''images'' file)
               (createRecord env uid file) w) = (resp, w')"
  using run
proof
  assume "req_user req = Some uid \<and> uploadMedia base env req w = (resp, w')"
  then show ?thesis
    using img f by (auto simp: uploadMedia_def Let_def isImage_uploadMediaType)
next
  assume "req_userId req = Some uid \<and> uid \<noteq> [] \<and> uid \<in> users w
                 \<and> external_uploadMedia base env req w = (resp, w')"
  then show ?thesis
    using img f
    by (auto simp: external_uploadMedia_def Let_def isImage_uploadMediaType truthy_opt_def)
qed

text \<open>
  Claim C3, amended.  When one of the two encodes of an image upload fails, the upload
  is answered with status 500 and no media object, no record is created, no job is
  started, and the file at the path of the uploaded original is as it was.  Nothing is
  cleaned up: when the first encode had succeeded, the optimized file it wrote is still
  there.
\<close>

theorem image_upload_failure_aborts:
  assumes img: "isImage (mimetype file)" and f: "req_file req = Some file"
    and run: "(req_user req = Some uid \<and> uploadMedia base env req w = (resp, w'))
            \<or> (req_userId req = Some uid \<and> uid \<noteq> [] \<and> uid \<in> users w
                 \<and> external_uploadMedia base env req w = (resp, w'))"
    and fail: "(\<exists>r. enc_optimized env = SharpFail r) \<or> (\<exists>r. enc_thumbnail env = SharpFail r)"
  shows "res_status resp = 500 \<and> res_media resp = NoPayload
         \<and> docs w' = docs w \<and> jobs w' = jobs w
         \<and> files w' (path_f file) = files w (path_f file)
         \<and> (\<forall>n. enc_optimized env = SharpOk n \<and> files w (path_f file) \<noteq> None
                \<and> path_f file \<noteq> getOptimizedPath base uid ''images'' (path_parse_name (filename file) @ ''.webp'')
              \<longrightarrow> files w' (getOptimizedPath base uid ''images'' (path_parse_name (filename file) @ ''.webp''))
                    = Some n)"
proof -
  have r: "respond ''An error occurred uploading media''
            (andThen (imageBranch base env (''https://'' @ req_host req) uid ''images'' file)
               (createRecord env uid file) w) = (resp, w')"
    by (rule image_upload_core_authenticated [OF img f run])
  obtain e w1 where b: "imageBranch base env (''https://'' @ req_host req) uid ''images'' file w = (Inl e, w1)"
    using imageBranch_fails [OF fail] by blast
  have ns: "CHR ''/'' \<notin> set (path_parse_name (filename file))" by (rule path_parse_name_no_slash)
  have "resp = \<lparr>res_status = err_status e,
                 res_message = err_message e ''An error occurred uploading media'',
                 res_media = NoPayload\<rparr>" and "w' = w1"
    using r b by (simp_all add: andThen_def respond_def)
  then show ?thesis
    using imageBranch_Inl [OF b] thumb_opt_distinct [OF ns, of base uid "''images''"] by simp
qed

text \<open>
  The theorem at the upload of \<open>photo.png\<close> when the thumbnail encode fails: the answer
  is 500, the original is still there, and so is the optimized file of 700 bytes.
\<close>

theorem image_upload_failure_aborts_witness:
  "isImage (mimetype png_upload) \<and> req_file (request_of png_upload) = Some png_upload
   \<and> req_user (request_of png_upload) = Some owner1
   \<and> res_status (fst (uploadMedia ''./uploads''
        \<lparr>enc_optimized = SharpOk 700, enc_thumbnail = SharpFail None, uuid = ''x'',
         newObjectId = ''650000000000000000000001''\<rparr> (request_of png_upload) world0)) = 500
   \<and> docs (snd (uploadMedia ''./uploads''
        \<lparr>enc_optimized = SharpOk 700, enc_thumbnail = SharpFail None, uuid = ''x'',
         newObjectId = ''650000000000000000000001''\<rparr> (request_of png_upload) world0)) = docs world0
   \<and> files (snd (uploadMedia ''./uploads''
        \<lparr>enc_optimized = SharpOk 700, enc_thumbnail = SharpFail None, uuid = ''x'',
         newObjectId = ''650000000000000000000001''\<rparr> (request_of png_upload) world0))
        (path_f png_upload) = Some 2048"
proof -
  let ?env = "\<lparr>enc_optimized = SharpOk 700, enc_thumbnail = SharpFail None, uuid = ''x'',
         newObjectId = ''650000000000000000000001''\<rparr>"
  let ?r = "uploadMedia ''./uploads'' ?env (request_of png_upload) world0"
  have img: "isImage (mimetype png_upload)"
    by (simp add: png_upload_def isImage_def startsWith_def)
  have f: "req_file (request_of png_upload) = Some png_upload" by (simp add: request_of_def)
  have u: "req_user (request_of png_upload) = Some owner1" by (simp add: request_of_def)
  have run: "(req_user (request_of png_upload) = Some owner1
               \<and> uploadMedia ''./uploads'' ?env (request_of png_upload) world0 = (fst ?r, snd ?r))
           \<or> (req_userId (request_of png_upload) = Some owner1 \<and> owner1 \<noteq> [] \<and> owner1 \<in> users world0
               \<and> external_uploadMedia ''./uploads'' ?env (request_of png_upload) world0 = (fst ?r, snd ?r))"
    using u by simp
  have fail: "(\<exists>r. enc_optimized ?env = SharpFail r) \<or> (\<exists>r. enc_thumbnail ?env = SharpFail r)"
    by simp
  have orig: "files world0 (path_f png_upload) = Some 2048"
    by (simp add: world0_def png_upload_def)
  from image_upload_failure_aborts [OF img f run fail] img f u orig
  show ?thesis by simp
qed

text \<open>
  Claim C3 as stated fails: when the thumbnail encode of the upload of \<open>photo.png\<close>
  fails after writing 10 bytes, the answer is 500 and no record exists, yet the
  optimized file written by the first encode and the truncated thumbnail are on disk,
  where there was no file before.
\<close>

theorem image_upload_no_cleanup_counterexample:
  "res_status (fst (uploadMedia ''./uploads''
        \<lparr>enc_optimized = SharpOk 700, enc_thumbnail = SharpFail (Some 10), uuid = ''x'',
         newObjectId = ''650000000000000000000001''\<rparr> (request_of png_upload) world0)) = 500
   \<and> files world0 ''uploads/64b7f0c2a1d3e4f5a6b7c8d9/images/optimized/f1.webp'' = None
   \<and> files world0 ''uploads/64b7f0c2a1d3e4f5a6b7c8d9/thumbnails/thumb_f1.webp'' = None
   \<and> files (snd (uploadMedia ''./uploads''
        \<lparr>enc_optimized = SharpOk 700, enc_thumbnail = SharpFail (Some 10), uuid = ''x'',
         newObjectId = ''650000000000000000000001''\<rparr> (request_of png_upload) world0))
        ''uploads/64b7f0c2a1d3e4f5a6b7c8d9/images/optimized/f1.webp'' = Some 700
   \<and> files (snd (uploadMedia ''./uploads''
        \<lparr>enc_optimized = SharpOk 700, enc_thumbnail = SharpFail (Some 10), uuid = ''x'',
         newObjectId = ''650000000000000000000001''\<rparr> (request_of png_upload) world0))
        ''uploads/64b7f0c2a1d3e4f5a6b7c8d9/thumbnails/thumb_f1.webp'' = Some 10
   \<and> docs (snd (uploadMedia ''./uploads''
        \<lparr>enc_optimized = SharpOk 700, enc_thumbnail = SharpFail (Some 10), uuid = ''x'',
         newObjectId = ''650000000000000000000001''\<rparr> (request_of png_upload) world0)) = Map.empty"
  by (simp add: upload_defs input_defs class_defs url_defs step_defs path_defs store_defs Let_def)

section \<open>Video uploads\<close>

lemma ensure_frame:
  "files (snd (ensureUserDirExists base uid sub w)) = files w"
  "docs (snd (ensureUserDirExists base uid sub w)) = docs w"
  "jobs (snd (ensureUserDirExists base uid sub w)) = jobs w"
  "users (snd (ensureUserDirExists base uid sub w)) = users w"
  by (simp_all add: ensureUserDirExists_def Let_def andThen_def mkdirSync_def ok_def emit_def)

lemma andThen_ensure:
  "andThen (ensureUserDirExists base uid sub) (\<lambda>_. g) w = g (snd (ensureUserDirExists base uid sub w))"
  using ensureUserDirExists_ex [of base uid sub w] by (auto simp: andThen_def)

lemma andThen_launch:
  "andThen (ffmpeg_launch j) (\<lambda>_. g) w = g (w\<lparr>jobs := jobs w @ [j]\<rparr>)"
  by (simp add: andThen_def ffmpeg_launch_def ok_def)

lemma videoBranch_result:
  "\<exists>v w1. videoBranch base env baseUrl uid mediaType file w = (Inr v, w1)
     \<and> v_thumbnailUrl v = Some (thumbnailUrlOf baseUrl uid (''thumb_'' @ path_parse_name (filename file) @ ''.jpg''))
     \<and> v_optimizedFileUrl v = None \<and> v_isOptimized v = False
     \<and> v_fileUrl v = fileUrlOf baseUrl uid mediaType (filename file)
     \<and> v_newFileName v = filename file \<and> v_optimizedSize v = size_f file
     \<and> files w1 = files w \<and> docs w1 = docs w
     \<and> jobs w1 = jobs w @
          [ScreenshotJob (path_f file) (path_join [base, uid, ''thumbnails''])
             (''thumb_'' @ path_parse_name (filename file) @ ''.jpg''),
           UploadTranscodeJob (path_f file)
             (getOptimizedPath base uid mediaType (''opt_'' @ path_parse_name (filename file) @ ''.mp4''))
             (uuid env)
             (optimizedUrlOf baseUrl uid mediaType (''opt_'' @ path_parse_name (filename file) @ ''.mp4''))]"
  unfolding videoBranch_def Let_def andThen_ensure andThen_launch
  by (simp add: ok_def ensure_frame)

lemma external_videoBranch_Inr:
  assumes "external_videoBranch base env baseUrl uid mediaType file w = (Inr v, w1)"
  shows "v_thumbnailUrl v = Some (thumbnailUrlOf baseUrl uid (''thumb_'' @ path_parse_name (filename file) @ ''.jpg''))
     \<and> v_optimizedFileUrl v = None \<and> v_isOptimized v = False
     \<and> v_fileUrl v = fileUrlOf baseUrl uid mediaType (filename file)
     \<and> v_newFileName v = filename file \<and> v_optimizedSize v = size_f file
     \<and> docs w1 = docs w
     \<and> jobs w1 = jobs w @
          [ScreenshotJob (path_f file) (path_join [base, uid, ''thumbnails''])
             (''thumb_'' @ path_parse_name (filename file) @ ''.jpg''),
           UploadTranscodeJob (getUserFilePath base uid mediaType (filename file))
             (getOptimizedPath base uid mediaType (''opt_'' @ path_parse_name (filename file) @ ''.mp4''))
             (uuid env)
             (optimizedUrlOf baseUrl uid mediaType (''opt_'' @ path_parse_name (filename file) @ ''.mp4''))]"
proof (cases "files w (path_f file)")
  case None
  with assms show ?thesis
    unfolding external_videoBranch_def Let_def andThen_ensure andThen_launch
    by (simp add: andThen_def renameSync_def throw_def ensure_frame)
next
  case (Some n)
  with assms show ?thesis
    unfolding external_videoBranch_def Let_def andThen_ensure andThen_launch
    by (auto simp: andThen_def renameSync_def ok_def emit_def ensure_frame)
qed

lemma external_videoBranch_Inl:
  assumes "external_videoBranch base env baseUrl uid mediaType file w = (Inl e, w1)"
  shows "err_status e = 500"
proof (cases "files w (path_f file)")
  case None
  with assms show ?thesis
    unfolding external_videoBranch_def Let_def andThen_ensure andThen_launch
    by (auto simp: andThen_def renameSync_def throw_def ensure_frame err_status_def)
next
  case (Some n)
  with assms show ?thesis
    unfolding external_videoBranch_def Let_def andThen_ensure andThen_launch
    by (auto simp: andThen_def renameSync_def ok_def emit_def ensure_frame)
qed

lemma video_upload_core:
  assumes vid: "isVideo (mimetype file)" and f: "req_file req = Some file"
    and run: "uploadMedia base env req w = (resp, w') \<or> external_uploadMedia base env req w = (resp, w')"
    and st: "res_status resp = 201"
  shows "\<exists>uid v w1 src.
           createRecord env uid file v w1 = (Inr resp, w')
         \<and> v_thumbnailUrl v = Some (thumbnailUrlOf (''https://'' @ req_host req) uid
                                     (''thumb_'' @ path_parse_name (filename file) @ ''.jpg''))
         \<and> v_optimizedFileUrl v = None \<and> v_isOptimized v = False
         \<and> docs w1 = docs w
         \<and> jobs w1 = jobs w @
             [ScreenshotJob (path_f file) (path_join [base, uid, ''thumbnails''])
                (''thumb_'' @ path_parse_name (filename file) @ ''.jpg''),
              UploadTranscodeJob src
                (getOptimizedPath base uid ''videos'' (''opt_'' @ path_parse_name (filename file) @ ''.mp4''))
                (uuid env)
                (optimizedUrlOf (''https://'' @ req_host req) uid ''videos''
                   (''opt_'' @ path_parse_name (filename file) @ ''.mp4''))]"
  using run
proof
  assume u: "uploadMedia base env req w = (resp, w')"
  then obtain uid where uid: "req_user req = Some uid"
    using f st by (cases "req_user req") (auto simp: uploadMedia_def)
  define baseUrl where "baseUrl = ''https://'' @ req_host req"
  let ?b = "videoBranch base env baseUrl uid ''videos'' file"
  have r: "respond ''An error occurred uploading media'' (andThen ?b (createRecord env uid file) w) = (resp, w')"
    using u f uid vid
    by (simp add: uploadMedia_def Let_def isVideo_not_isImage isVideo_uploadMediaType baseUrl_def)
  obtain v w1 where b: "?b w = (Inr v, w1)"
    and v: "v_thumbnailUrl v = Some (thumbnailUrlOf baseUrl uid (''thumb_'' @ path_parse_name (filename file) @ ''.jpg''))"
       "v_optimizedFileUrl v = None" "v_isOptimized v = False"
    and w1: "docs w1 = docs w"
      "jobs w1 = jobs w @
             [ScreenshotJob (path_f file) (path_join [base, uid, ''thumbnails''])
                (''thumb_'' @ path_parse_name (filename file) @ ''.jpg''),
              UploadTranscodeJob (path_f file)
                (getOptimizedPath base uid ''videos'' (''opt_'' @ path_parse_name (filename file) @ ''.mp4''))
                (uuid env)
                (optimizedUrlOf baseUrl uid ''videos'' (''opt_'' @ path_parse_name (filename file) @ ''.mp4''))]"
    using videoBranch_result [of base env baseUrl uid "''videos''" "file" w]
    by blast
  have "andThen ?b (createRecord env uid file) w = (Inr resp, w')"
  proof (rule respond_status_201 [OF r st])
    fix e w2
    assume "andThen ?b (createRecord env uid file) w = (Inl e, w2)"
    then have "createRecord env uid file v w1 = (Inl e, w2)" using b by (simp add: andThen_def)
    then have "err_status e = 500" by (blast dest: createRecord_Inl)
    then show "err_status e \<noteq> 201" by simp
  qed
  then have "createRecord env uid file v w1 = (Inr resp, w')" using b by (simp add: andThen_def)
  then show ?thesis using v w1 unfolding baseUrl_def by blast
next
  assume u: "external_uploadMedia base env req w = (resp, w')"
  define uid where "uid = the (req_userId req)"
  define baseUrl where "baseUrl = ''https://'' @ req_host req"
  let ?b = "external_videoBranch base env baseUrl uid ''videos'' file"
  have r: "respond ''An error occurred uploading media'' (andThen ?b (createRecord env uid file) w) = (resp, w')"
  proof (cases "truthy_opt (req_userId req) \<and> uid \<in> users w")
    case True
    then show ?thesis
      using u f vid
      by (simp add: external_uploadMedia_def Let_def isVideo_not_isImage isVideo_uploadMediaType
          uid_def baseUrl_def)
  next
    case False
    then have "res_status resp = 401"
      using u f
      by (cases "truthy_opt (req_userId req)")
         (auto simp: external_uploadMedia_def Let_def uid_def respond_def throw_def err_status_def)
    with st show ?thesis by simp
  qed
  have a: "andThen ?b (createRecord env uid file) w = (Inr resp, w')"
  proof (rule respond_status_201 [OF r st])
    fix e w2
    assume "andThen ?b (createRecord env uid file) w = (Inl e, w2)"
    then have "err_status e = 500"
      by (cases rule: andThen_cases) (blast dest: external_videoBranch_Inl createRecord_Inl)+
    then show "err_status e \<noteq> 201" by simp
  qed
  then obtain v w1 where b: "?b w = (Inr v, w1)" and c: "createRecord env uid file v w1 = (Inr resp, w')"
    by (cases rule: andThen_cases) auto
  show ?thesis
    using external_videoBranch_Inr [OF b] c unfolding baseUrl_def by blast
qed

lemma screenshot_failure_only_logs:
  "job_complete (ScreenshotJob src folder fname) FfmpegError w
     = emit (ConsoleError ''Error generating video thumbnail'') w"
  by (simp add: job_complete_def)

text \<open>
  Claim C6, amended.  For every accepted video upload the response is sent before any
  job has run; the stored record carries the locator of the thumbnail the screenshot job
  is expected to write; and when that job fails, the failure is only logged: files,
  records and jobs stay as they are, so the record keeps its \<open>thumbnailUrl\<close>.
\<close>

theorem video_upload_thumbnail_failure:
  assumes vid: "isVideo (mimetype file)" and f: "req_file req = Some file"
    and run: "uploadMedia base env req w = (resp, w') \<or> external_uploadMedia base env req w = (resp, w')"
    and acc: "res_status resp = 201"
  shows "\<exists>k d. res_media resp = MediaView k d \<and> docs w' k = Some d
           \<and> thumbnailUrl d = Some (thumbnailUrlOf (''https://'' @ req_host req) (userId d)
                                     (''thumb_'' @ path_parse_name (filename file) @ ''.jpg''))
           \<and> ScreenshotJob (path_f file) (path_join [base, userId d, ''thumbnails''])
                (''thumb_'' @ path_parse_name (filename file) @ ''.jpg'') \<in> set (jobs w')
           \<and> (\<forall>w2. docs (job_complete (ScreenshotJob (path_f file)
                             (path_join [base, userId d, ''thumbnails''])
                             (''thumb_'' @ path_parse_name (filename file) @ ''.jpg'')) FfmpegError w2) = docs w2
                  \<and> files (job_complete (ScreenshotJob (path_f file)
                             (path_join [base, userId d, ''thumbnails''])
                             (''thumb_'' @ path_parse_name (filename file) @ ''.jpg'')) FfmpegError w2) = files w2
                  \<and> trace (job_complete (ScreenshotJob (path_f file)
                             (path_join [base, userId d, ''thumbnails''])
                             (''thumb_'' @ path_parse_name (filename file) @ ''.jpg'')) FfmpegError w2)
                      = trace w2 @ [ConsoleError ''Error generating video thumbnail''])"
proof -
  obtain uid v w1 src where c: "createRecord env uid file v w1 = (Inr resp, w')"
    and v: "v_thumbnailUrl v = Some (thumbnailUrlOf (''https://'' @ req_host req) uid
                                     (''thumb_'' @ path_parse_name (filename file) @ ''.jpg''))"
    and j: "jobs w1 = jobs w @
             [ScreenshotJob (path_f file) (path_join [base, uid, ''thumbnails''])
                (''thumb_'' @ path_parse_name (filename file) @ ''.jpg''),
              UploadTranscodeJob src
                (getOptimizedPath base uid ''videos'' (''opt_'' @ path_parse_name (filename file) @ ''.mp4''))
                (uuid env)
                (optimizedUrlOf (''https://'' @ req_host req) uid ''videos''
                   (''opt_'' @ path_parse_name (filename file) @ ''.mp4''))]"
    using video_upload_core [OF vid f run acc] by blast
  define d where "d = \<lparr>fileName = v_newFileName v, originalFileName = originalname file,
           fileType = mimetype file, fileSize = v_optimizedSize v, fileUrl = v_fileUrl v,
           thumbnailUrl = v_thumbnailUrl v, userId = uid,
           optimizedFileUrl = v_optimizedFileUrl v, isOptimized = v_isOptimized v\<rparr>"
  have r: "res_media resp = MediaView (newObjectId env) d" "docs w' (newObjectId env) = Some d"
    "jobs w' = jobs w1"
    using createRecord_Inr [OF c] by (simp_all add: d_def)
  have t: "thumbnailUrl d = Some (thumbnailUrlOf (''https://'' @ req_host req) (userId d)
                                     (''thumb_'' @ path_parse_name (filename file) @ ''.jpg''))"
    and u: "userId d = uid"
    using v by (simp_all add: d_def)
  have s: "ScreenshotJob (path_f file) (path_join [base, userId d, ''thumbnails''])
                (''thumb_'' @ path_parse_name (filename file) @ ''.jpg'') \<in> set (jobs w')"
    using r(3) j u by simp
  show ?thesis
    using r(1,2) t s by (auto simp: screenshot_failure_only_logs emit_def)
qed

text \<open>The theorem at the upload of \<open>clip.mov\<close> through media.controller.\<close>

theorem video_upload_thumbnail_failure_witness:
  "isVideo (mimetype mov_upload) \<and> req_file (request_of mov_upload) = Some mov_upload
   \<and> res_status (fst (uploadMedia ''./uploads'' video_env (request_of mov_upload) world0)) = 201
   \<and> (\<exists>k d. res_media (fst (uploadMedia ''./uploads'' video_env (request_of mov_upload) world0))
                = MediaView k d
            \<and> docs (snd (uploadMedia ''./uploads'' video_env (request_of mov_upload) world0)) k = Some d
            \<and> thumbnailUrl d = Some (thumbnailUrlOf (''https://'' @ req_host (request_of mov_upload))
                   (userId d) (''thumb_'' @ path_parse_name (filename mov_upload) @ ''.jpg'')))"
proof -
  let ?r = "uploadMedia ''./uploads'' video_env (request_of mov_upload) world0"
  have vid: "isVideo (mimetype mov_upload)"
    by (simp add: mov_upload_def isVideo_def startsWith_def)
  have f: "req_file (request_of mov_upload) = Some mov_upload" by (simp add: request_of_def)
  have st: "res_status (fst ?r) = 201"
    by (simp add: upload_defs input_defs video_env_def class_defs url_defs step_defs path_defs
        store_defs Let_def)
  have run: "uploadMedia ''./uploads'' video_env (request_of mov_upload) world0 = (fst ?r, snd ?r)
             \<or> external_uploadMedia ''./uploads'' video_env (request_of mov_upload) world0 = (fst ?r, snd ?r)"
    by simp
  from video_upload_thumbnail_failure [OF vid f run st] vid f st
  show ?thesis by blast
qed

text \<open>
  Claim C6 as stated fails in its last part: after the upload of \<open>clip.mov\<close> and the
  failure of its screenshot job the stored record has a \<open>thumbnailUrl\<close>, and no file is
  at the thumbnail path.
\<close>

theorem thumbnailUrl_set_counterexample:
  "jobs (snd (uploadMedia ''./uploads'' video_env (request_of mov_upload) world0)) ! 0
     = ScreenshotJob ''uploads/64b7f0c2a1d3e4f5a6b7c8d9/videos/v1.mov''
         ''uploads/64b7f0c2a1d3e4f5a6b7c8d9/thumbnails'' ''thumb_v1.jpg''
   \<and> map_option thumbnailUrl
        (docs (job_complete
                 (ScreenshotJob ''uploads/64b7f0c2a1d3e4f5a6b7c8d9/videos/v1.mov''
                    ''uploads/64b7f0c2a1d3e4f5a6b7c8d9/thumbnails'' ''thumb_v1.jpg'')
                 FfmpegError
                 (snd (uploadMedia ''./uploads'' video_env (request_of mov_upload) world0)))
           ''650000000000000000000002'')
       = Some (Some ''https://media.test/uploads/64b7f0c2a1d3e4f5a6b7c8d9/thumbnails/thumb_v1.jpg'')
   \<and> files (job_complete
                 (ScreenshotJob ''uploads/64b7f0c2a1d3e4f5a6b7c8d9/videos/v1.mov''
                    ''uploads/64b7f0c2a1d3e4f5a6b7c8d9/thumbnails'' ''thumb_v1.jpg'')
                 FfmpegError
                 (snd (uploadMedia ''./uploads'' video_env (request_of mov_upload) world0)))
        ''uploads/64b7f0c2a1d3e4f5a6b7c8d9/thumbnails/thumb_v1.jpg'' = None"
  by (simp add: upload_defs input_defs video_env_def class_defs url_defs step_defs path_defs
      store_defs job_complete_def Let_def)

section \<open>The id the transcode of an upload updates\<close>

lemma castObjectId_length: "castObjectId s = Some k \<Longrightarrow> length s = 24"
  by (simp add: castObjectId_def split: if_splits)

text \<open>
  A transcode job whose \<open>dbRecordId\<close> is not an ObjectId string changes no document,
  whatever ffmpeg does.
\<close>

lemma upload_transcode_changes_no_document:
  assumes "length anId \<noteq> 24"
  shows "docs (job_complete (UploadTranscodeJob src out anId url) outcome w) = docs w"
proof -
  have c: "castObjectId anId = None"
    using assms castObjectId_length [of anId] by (cases "castObjectId anId") auto
  show ?thesis
    by (cases outcome)
       (simp_all add: job_complete_def uploadTranscode_onEnd_def andThen_def statSync_def
          Media_findByIdAndUpdate_def c castError_def throw_def ok_def emit_def)
qed

text \<open>
  For every accepted video upload the id in the response and in the store is the one
  generated for the new document, while the transcode job holds what \<open>uuidv4()\<close>
  returned.
\<close>

lemma video_upload_ids:
  assumes vid: "isVideo (mimetype file)" and f: "req_file req = Some file"
    and run: "uploadMedia base env req w = (resp, w') \<or> external_uploadMedia base env req w = (resp, w')"
    and acc: "res_status resp = 201"
  shows "\<exists>d src out url. res_media resp = MediaView (newObjectId env) d
           \<and> docs w' (newObjectId env) = Some d \<and> isOptimized d = False
           \<and> optimizedFileUrl d = None
           \<and> last (jobs w') = UploadTranscodeJob src out (uuid env) url"
proof -
  obtain uid v w1 src where c: "createRecord env uid file v w1 = (Inr resp, w')"
    and v: "v_isOptimized v = False" "v_optimizedFileUrl v = None"
    and j: "jobs w1 = jobs w @
             [ScreenshotJob (path_f file) (path_join [base, uid, ''thumbnails''])
                (''thumb_'' @ path_parse_name (filename file) @ ''.jpg''),
              UploadTranscodeJob src
                (getOptimizedPath base uid ''videos'' (''opt_'' @ path_parse_name (filename file) @ ''.mp4''))
                (uuid env)
                (optimizedUrlOf (''https://'' @ req_host req) uid ''videos''
                   (''opt_'' @ path_parse_name (filename file) @ ''.mp4''))]"
    using video_upload_core [OF vid f run acc] by blast
  show ?thesis
    using createRecord_Inr [OF c] v j by simp
qed

lemma upload_transcode_cast_fails:
  assumes "length anId \<noteq> 24" and "files w src \<noteq> None"
  shows "job_complete (UploadTranscodeJob src out anId url) (FfmpegEnd n) w
           = emit (ConsoleError ''Error updating media record after optimization'')
               (emit (FileWritten out n) (w\<lparr>files := (files w)(out := Some n)\<rparr>))"
proof -
  have c: "castObjectId anId = None"
    using assms(1) castObjectId_length [of anId] by (cases "castObjectId anId") auto
  show ?thesis
    using assms(2)
    by (auto simp: job_complete_def uploadTranscode_onEnd_def andThen_def statSync_def
          Media_findByIdAndUpdate_def c castError_def throw_def ok_def emit_def)
qed

lemma video_upload_accepted:
  "res_status (fst video_upload) = 201" "res_status (fst external_video_upload) = 201"
  by (simp_all add: video_upload_def external_video_upload_def upload_defs input_defs video_env_def
      class_defs url_defs step_defs path_defs store_defs Let_def)

text \<open>
  Claim C1 fails on the code.  The upload of \<open>clip.mov\<close> is accepted and its record is
  returned and stored under the ObjectId \<open>650000000000000000000002\<close>, while the
  transcode job was handed the UUID \<open>uuidv4()\<close> returned.  When the transcode ends with
  4000 bytes written, the update by that id is rejected and the error is logged: the
  record that was returned is still not optimized and has no optimized locator.  The
  same holds through external.controller.
\<close>

theorem transcode_updates_wrong_id:
  "res_status (fst video_upload) = 201
   \<and> (case res_media (fst video_upload) of
         MediaView k d \<Rightarrow> k = ''650000000000000000000002'' | _ \<Rightarrow> False)
   \<and> (case last (jobs (snd video_upload)) of
         UploadTranscodeJob src out dbRecordId url \<Rightarrow>
           dbRecordId = ''9b2e4f6a-1c3d-4e5f-8a7b-0c9d8e7f6a5b'' | _ \<Rightarrow> False)
   \<and> map_option (\<lambda>d. (isOptimized d, optimizedFileUrl d))
        (docs (job_complete (last (jobs (snd video_upload))) (FfmpegEnd 4000) (snd video_upload))
           ''650000000000000000000002'') = Some (False, None)
   \<and> res_status (fst external_video_upload) = 201
   \<and> (case res_media (fst external_video_upload) of
         MediaView k d \<Rightarrow> k = ''650000000000000000000002'' | _ \<Rightarrow> False)
   \<and> (case last (jobs (snd external_video_upload)) of
         UploadTranscodeJob src out dbRecordId url \<Rightarrow>
           dbRecordId = ''9b2e4f6a-1c3d-4e5f-8a7b-0c9d8e7f6a5b'' | _ \<Rightarrow> False)
   \<and> map_option (\<lambda>d. (isOptimized d, optimizedFileUrl d))
        (docs (job_complete (last (jobs (snd external_video_upload))) (FfmpegEnd 4000)
                 (snd external_video_upload))
           ''650000000000000000000002'') = Some (False, None)"
proof -
  have vid: "isVideo (mimetype mov_upload)"
    by (simp add: mov_upload_def isVideo_def startsWith_def)
  have f: "req_file (request_of mov_upload) = Some mov_upload" by (simp add: request_of_def)
  have len: "length (uuid video_env) \<noteq> 24" by (simp add: video_env_def)
  have ids: "uuid video_env = ''9b2e4f6a-1c3d-4e5f-8a7b-0c9d8e7f6a5b''"
    "newObjectId video_env = ''650000000000000000000002''"
    by (simp_all add: video_env_def)
  have part: "(case res_media resp of MediaView k d \<Rightarrow> k = ''650000000000000000000002'' | _ \<Rightarrow> False)
     \<and> (case last (jobs w') of
           UploadTranscodeJob src out dbRecordId url \<Rightarrow>
             dbRecordId = ''9b2e4f6a-1c3d-4e5f-8a7b-0c9d8e7f6a5b'' | _ \<Rightarrow> False)
     \<and> map_option (\<lambda>d. (isOptimized d, optimizedFileUrl d))
          (docs (job_complete (last (jobs w')) (FfmpegEnd 4000) w') ''650000000000000000000002'')
         = Some (False, None)"
    if run: "uploadMedia ''./uploads'' video_env (request_of mov_upload) world0 = (resp, w')
             \<or> external_uploadMedia ''./uploads'' video_env (request_of mov_upload) world0 = (resp, w')"
      and acc: "res_status resp = 201" for resp w'
  proof -
    obtain d src out url where r: "res_media resp = MediaView (newObjectId video_env) d"
      and d: "docs w' (newObjectId video_env) = Some d" "isOptimized d = False"
        "optimizedFileUrl d = None"
      and j: "last (jobs w') = UploadTranscodeJob src out (uuid video_env) url"
      using video_upload_ids [OF vid f run acc] by blast
    have "docs (job_complete (last (jobs w')) (FfmpegEnd 4000) w') = docs w'"
      unfolding j by (rule upload_transcode_changes_no_document [OF len])
    then show ?thesis using r d j by (simp add: ids)
  qed
  have a: "uploadMedia ''./uploads'' video_env (request_of mov_upload) world0
             = (fst video_upload, snd video_upload)
           \<or> external_uploadMedia ''./uploads'' video_env (request_of mov_upload) world0
             = (fst video_upload, snd video_upload)"
    by (simp add: video_upload_def)
  have b: "uploadMedia ''./uploads'' video_env (request_of mov_upload) world0
             = (fst external_video_upload, snd external_video_upload)
           \<or> external_uploadMedia ''./uploads'' video_env (request_of mov_upload) world0
             = (fst external_video_upload, snd external_video_upload)"
    by (simp add: external_video_upload_def)
  show ?thesis
    using part [OF a video_upload_accepted(1)] part [OF b video_upload_accepted(2)]
      video_upload_accepted
    by simp
qed

section \<open>Deletion\<close>

lemma Media_findOne_found:
  assumes "fst (Media_findOne mediaId uid w) = Inr (Some (k, m))"
  shows "Media_findOne mediaId uid w = (Inr (Some (k, m)), w) \<and> castObjectId mediaId = Some k
         \<and> docs w k = Some m \<and> userId m = uid"
  using assms
  by (auto simp: Media_findOne_def throw_def ok_def split: option.splits if_splits)



















text \<open>
  A directory at the path of the original: \<open>existsSync\<close> is true there, \<open>unlinkSync\<close>
  throws, and the answer is 500 with nothing changed, the record included.
\<close>

lemma deleteMedia_directory:
  assumes found: "fst (Media_findOne (req_id req) uid w) = Inr (Some (k, m))"
    and user: "req_user req = Some uid"
    and url: "fileUrl m \<noteq> []" "\<not> str_includes (fileUrl m) ''/optimized/''"
    and dir: "files w (getUserFilePath base uid (mediaTypeOf (fileType m)) (fileName m)) = None"
             "getUserFilePath base uid (mediaTypeOf (fileType m)) (fileName m) \<in> dirs w"
  shows "deleteMedia base req w
           = (\<lparr>res_status = 500,
               res_message = ''EISDIR: illegal operation on a directory, unlink'',
               res_media = NoPayload\<rparr>, w)"
proof -
  have f: "Media_findOne (req_id req) uid w = (Inr (Some (k, m)), w)"
    using Media_findOne_found [OF found] by simp
  show ?thesis
    using user url dir
    by (simp add: deleteMedia_def deleteRecord_def andThen_def f Let_def truthy_def existsSync_def
        unlinkSync_def throw_def respond_def err_status_def err_message_def)
qed


text \<open>
  The record and the files of \<open>world1\<close> are what the upload of \<open>photo.png\<close> leaves.
\<close>

lemma image_upload_leaves_world1:
  "docs (snd (uploadMedia ''./uploads''
        \<lparr>enc_optimized = SharpOk 700, enc_thumbnail = SharpOk 90, uuid = ''x'',
         newObjectId = ''650000000000000000000001''\<rparr> (request_of png_upload)
        (world0\<lparr>files := [''uploads/64b7f0c2a1d3e4f5a6b7c8d9/images/f1.png'' \<mapsto> 2048]\<rparr>)))
     = docs world1
   \<and> files (snd (uploadMedia ''./uploads''
        \<lparr>enc_optimized = SharpOk 700, enc_thumbnail = SharpOk 90, uuid = ''x'',
         newObjectId = ''650000000000000000000001''\<rparr> (request_of png_upload)
        (world0\<lparr>files := [''uploads/64b7f0c2a1d3e4f5a6b7c8d9/images/f1.png'' \<mapsto> 2048]\<rparr>)))
     = files world1"
  by (simp add: upload_defs input_defs class_defs url_defs step_defs path_defs store_defs Let_def
      world1_def stored_image_def fun_eq_iff)





section \<open>Re-optimization\<close>

lemma Media_save_unchanged:
  assumes "docs w k \<noteq> None" "\<forall>f\<in>set assigned. field_holds f d"
  shows "Media_save k d assigned w = (Inr d, w)"
proof -
  have "filter (\<lambda>f. \<not> field_holds f d) assigned = []"
    using assms(2) by (simp add: filter_empty_conv)
  then show ?thesis
    using assms(1) by (auto simp: Media_save_def ok_def)
qed

lemma dbUpdates_append: "dbUpdates (xs @ ys) = dbUpdates xs @ dbUpdates ys"
  by (induction xs rule: dbUpdates.induct) auto

lemma apply_fields_append: "apply_fields (a @ b) d = apply_fields b (apply_fields a d)"
  by (simp add: apply_fields_def)

lemma ensure_dbUpdates:
  "dbUpdates (trace (snd (ensureUserDirExists base uid sub w))) = dbUpdates (trace w)"
  by (simp add: ensureUserDirExists_def Let_def andThen_def mkdirSync_def ok_def emit_def
      dbUpdates_append)

lemma sharp_toFile_Inr:
  assumes "sharp_toFile enc src out w = (Inr u, w1)"
  shows "\<exists>n. enc = SharpOk n \<and> src \<noteq> out \<and> files w src \<noteq> None
           \<and> w1 = emit (FileWritten out n) (w\<lparr>files := (files w)(out := Some n)\<rparr>)"
  using assms
  by (auto simp: sharp_toFile_def ok_def throw_def split: if_splits sharp_outcome.splits)

lemma apply_fields_holds:
  "\<forall>f\<in>set fs. field_holds f d \<Longrightarrow> apply_fields fs d = d"
proof (induction fs)
  case Nil
  show ?case by (simp add: apply_fields_def)
next
  case (Cons f fs)
  then have "apply_field f d = d" by (cases f) auto
  with Cons show ?case by (simp add: apply_fields_def)
qed

lemma Media_save_Inr:
  assumes "Media_save k d assigned w = (Inr d1, w1)"
  shows "\<exists>stored. docs w k = Some stored
     \<and> files w1 = files w \<and> jobs w1 = jobs w
     \<and> docs w1 = (docs w)(k := Some (apply_fields (filter (\<lambda>f. \<not> field_holds f d) assigned) stored))
     \<and> dbUpdates (trace w1) = dbUpdates (trace w)
          @ (if filter (\<lambda>f. \<not> field_holds f d) assigned = [] then []
             else [(k, filter (\<lambda>f. \<not> field_holds f d) assigned)])
     \<and> d1 = apply_fields assigned d"
proof (cases "filter (\<lambda>f. \<not> field_holds f d) assigned = []")
  case True
  then have "\<forall>f\<in>set assigned. field_holds f d" by (simp add: filter_empty_conv)
  then have "apply_fields assigned d = d" by (rule apply_fields_holds)
  then show ?thesis
    using assms True
    by (auto simp: Media_save_def Let_def ok_def throw_def apply_fields_def split: option.splits)
next
  case False
  then show ?thesis
    using assms
    by (auto simp: Media_save_def Let_def ok_def throw_def emit_def dbUpdates_append
        split: option.splits)
qed

lemma optimizeImage_Inr:
  assumes run: "optimizeImage base enc baseUrl uid mt k m w = (Inr resp, w')"
  shows "\<exists>n stored. enc = SharpOk n \<and> docs w k = Some stored
     \<and> files w (getUserFilePath base uid mt (fileName m)) \<noteq> None
     \<and> files w' = (files w)
          (getOptimizedPath base uid mt (''opt_'' @ path_parse_name (fileName m) @ ''.webp'') := Some n,
           getUserFilePath base uid mt (fileName m) := None)
     \<and> docs w' = (docs w)(k := Some (apply_fields
          (filter (\<lambda>f. \<not> field_holds f m)
             [OptimizedFileUrl (Some (optimizedUrlOf baseUrl uid mt
                 (''opt_'' @ path_parse_name (fileName m) @ ''.webp''))),
              IsOptimized True, FileSize n]
           @ (if fileUrl m = optimizedUrlOf baseUrl uid mt
                   (''opt_'' @ path_parse_name (fileName m) @ ''.webp'')
              then [] else [FileUrl (optimizedUrlOf baseUrl uid mt
                   (''opt_'' @ path_parse_name (fileName m) @ ''.webp''))])) stored))
     \<and> dbUpdates (trace w') = dbUpdates (trace w)
          @ (if filter (\<lambda>f. \<not> field_holds f m)
                  [OptimizedFileUrl (Some (optimizedUrlOf baseUrl uid mt
                      (''opt_'' @ path_parse_name (fileName m) @ ''.webp''))),
                   IsOptimized True, FileSize n] = [] then []
             else [(k, filter (\<lambda>f. \<not> field_holds f m)
                  [OptimizedFileUrl (Some (optimizedUrlOf baseUrl uid mt
                      (''opt_'' @ path_parse_name (fileName m) @ ''.webp''))),
                   IsOptimized True, FileSize n])])
          @ (if fileUrl m = optimizedUrlOf baseUrl uid mt
                   (''opt_'' @ path_parse_name (fileName m) @ ''.webp'')
             then [] else [(k, [FileUrl (optimizedUrlOf baseUrl uid mt
                   (''opt_'' @ path_parse_name (fileName m) @ ''.webp''))])])"
proof -
  define url where "url = optimizedUrlOf baseUrl uid mt (''opt_'' @ path_parse_name (fileName m) @ ''.webp'')"
  define src where "src = getUserFilePath base uid mt (fileName m)"
  define out where "out = getOptimizedPath base uid mt (''opt_'' @ path_parse_name (fileName m) @ ''.webp'')"
  define w0 where "w0 = snd (ensureUserDirExists base uid (mt @ ''/optimized'') w)"
  have w0: "files w0 = files w" "docs w0 = docs w" "dbUpdates (trace w0) = dbUpdates (trace w)"
    by (simp_all add: w0_def ensure_frame ensure_dbUpdates)
  let ?save1 = "\<lambda>n. Media_save k m [OptimizedFileUrl (Some url), IsOptimized True, FileSize n]"
  let ?rest = "\<lambda>m1 w1. if existsSync src w1 \<and> src \<noteq> out then
                      andThen (unlinkSync src) (\<lambda>_. Media_save k m1 [FileUrl url]) w1
                    else ok m1 w1"
  have chain: "andThen (sharp_toFile enc src out) (\<lambda>_.
         andThen (statSync out) (\<lambda>optimizedSize.
         andThen (?save1 optimizedSize) (\<lambda>m1.
         andThen (?rest m1) (\<lambda>m2.
         ok \<lparr>res_status = 200, res_message = ''Image optimized successfully'',
             res_media =
               ImageOptimizedView k (fileUrl m2) (optimizedFileUrl m2) (isOptimized m2)
                 (fileSize m2)\<rparr>)))) w0 = (Inr resp, w')"
    using run unfolding optimizeImage_def Let_def andThen_ensure url_def src_def out_def w0_def
    by assumption
  from chain obtain u w1 where s1: "sharp_toFile enc src out w0 = (Inr u, w1)"
    and c2: "andThen (statSync out) (\<lambda>optimizedSize.
         andThen (?save1 optimizedSize) (\<lambda>m1.
         andThen (?rest m1) (\<lambda>m2.
         ok \<lparr>res_status = 200, res_message = ''Image optimized successfully'',
             res_media =
               ImageOptimizedView k (fileUrl m2) (optimizedFileUrl m2) (isOptimized m2)
                 (fileSize m2)\<rparr>))) w1 = (Inr resp, w')"
    by (cases rule: andThen_cases) auto
  obtain n where enc: "enc = SharpOk n" and ne: "src \<noteq> out" and ex: "files w0 src \<noteq> None"
    and w1: "w1 = emit (FileWritten out n) (w0\<lparr>files := (files w0)(out := Some n)\<rparr>)"
    using sharp_toFile_Inr [OF s1] by blast
  have st: "statSync out w1 = (Inr n, w1)"
    by (simp add: statSync_def w1 emit_def ok_def)
  from c2 obtain n' w1' where st': "statSync out w1 = (Inr n', w1')"
    and c2': "andThen (?save1 n') (\<lambda>m1.
         andThen (?rest m1) (\<lambda>m2.
         ok \<lparr>res_status = 200, res_message = ''Image optimized successfully'',
             res_media =
               ImageOptimizedView k (fileUrl m2) (optimizedFileUrl m2) (isOptimized m2)
                 (fileSize m2)\<rparr>)) w1' = (Inr resp, w')"
    by (cases rule: andThen_cases) auto
  have "n' = n" "w1' = w1" using st st' by simp_all
  with c2' obtain m1 w2 where sv1: "?save1 n w1 = (Inr m1, w2)"
    and c3: "andThen (?rest m1) (\<lambda>m2.
         ok \<lparr>res_status = 200, res_message = ''Image optimized successfully'',
             res_media =
               ImageOptimizedView k (fileUrl m2) (optimizedFileUrl m2) (isOptimized m2)
                 (fileSize m2)\<rparr>) w2 = (Inr resp, w')"
    by (cases rule: andThen_cases) auto
  define mods3 where "mods3 = filter (\<lambda>f. \<not> field_holds f m) [OptimizedFileUrl (Some url), IsOptimized True, FileSize n]"
  obtain stored where p1: "docs w1 k = Some stored" "files w2 = files w1"
    "docs w2 = (docs w1)(k := Some (apply_fields mods3 stored))"
    "dbUpdates (trace w2) = dbUpdates (trace w1) @ (if mods3 = [] then [] else [(k, mods3)])"
    "fileUrl m1 = fileUrl m"
  proof -
    from Media_save_Inr [OF sv1] obtain stored where
      a: "docs w1 k = Some stored" "files w2 = files w1"
        "docs w2 = (docs w1)(k := Some (apply_fields mods3 stored))"
        "dbUpdates (trace w2) = dbUpdates (trace w1) @ (if mods3 = [] then [] else [(k, mods3)])"
        "m1 = apply_fields [OptimizedFileUrl (Some url), IsOptimized True, FileSize n] m"
      unfolding mods3_def by blast
    have "fileUrl m1 = fileUrl m" unfolding a(5) by (simp add: apply_fields_def)
    with a that show ?thesis by blast
  qed
  have ex2: "existsSync src w2 \<and> src \<noteq> out"
    using ex ne by (simp add: existsSync_def p1(2) w1 emit_def w0)
  from c3 obtain m2 where r2: "?rest m1 w2 = (Inr m2, w')"
    by (cases rule: andThen_cases) (auto simp: ok_def)
  then have "andThen (unlinkSync src) (\<lambda>_. Media_save k m1 [FileUrl url]) w2 = (Inr m2, w')"
    using ex2 by simp
  then obtain w3 where ul: "unlinkSync src w2 = (Inr (), w3)"
    and sv2: "Media_save k m1 [FileUrl url] w3 = (Inr m2, w')"
    by (cases rule: andThen_cases) auto
  have w3: "w3 = emit (Unlinked src) (w2\<lparr>files := (files w2)(src := None)\<rparr>)"
    using ul ex2 by (auto simp: unlinkSync_def existsSync_def ok_def throw_def split: if_splits)
  define modsU where "modsU = (if fileUrl m = url then [] else [FileUrl url])"
  have fU: "filter (\<lambda>f. \<not> field_holds f m1) [FileUrl url] = modsU"
    by (simp add: modsU_def p1(5))
  obtain stored3 where p2: "docs w3 k = Some stored3" "files w' = files w3"
    "docs w' = (docs w3)(k := Some (apply_fields modsU stored3))"
    "dbUpdates (trace w') = dbUpdates (trace w3) @ (if modsU = [] then [] else [(k, modsU)])"
    using Media_save_Inr [OF sv2] unfolding fU by blast
  have s3: "stored3 = apply_fields mods3 stored"
    using p2(1) by (simp add: w3 emit_def p1(3))
  have 1: "docs w k = Some stored" using p1(1) by (simp add: w1 emit_def w0)
  have 2: "files w' = (files w)(out := Some n, src := None)"
    by (simp add: p2(2) w3 emit_def p1(2) w1 w0)
  have 3: "docs w' = (docs w)(k := Some (apply_fields (mods3 @ modsU) stored))"
    by (simp add: p2(3) s3 w3 emit_def p1(3) w1 w0 apply_fields_append)
  have 4: "dbUpdates (trace w') = dbUpdates (trace w) @ (if mods3 = [] then [] else [(k, mods3)])
             @ (if modsU = [] then [] else [(k, modsU)])"
    by (simp add: p2(4) w3 emit_def dbUpdates_append p1(4) w1 w0)
  have 5: "(if modsU = [] then [] else [(k, modsU)]) = (if fileUrl m = url then [] else [(k, [FileUrl url])])"
    by (simp add: modsU_def)
  have 6: "files w src \<noteq> None" using ex by (simp add: w0)
  have "enc = SharpOk n \<and> docs w k = Some stored \<and> files w src \<noteq> None
     \<and> files w' = (files w)(out := Some n, src := None)
     \<and> docs w' = (docs w)(k := Some (apply_fields (mods3 @ modsU) stored))
     \<and> dbUpdates (trace w') = dbUpdates (trace w) @ (if mods3 = [] then [] else [(k, mods3)])
             @ (if fileUrl m = url then [] else [(k, [FileUrl url])])"
    using enc 1 2 3 4 6 unfolding 5 by simp
  then show ?thesis
    unfolding mods3_def modsU_def url_def src_def out_def by (intro exI)
qed

lemma optimizeImage_succeeds:
  assumes "files w (getUserFilePath base uid mt (fileName m)) \<noteq> None"
    and "getUserFilePath base uid mt (fileName m)
           \<noteq> getOptimizedPath base uid mt (''opt_'' @ path_parse_name (fileName m) @ ''.webp'')"
    and "docs w k \<noteq> None"
  shows "\<exists>resp w'. optimizeImage base (SharpOk n) baseUrl uid mt k m w = (Inr resp, w')
           \<and> res_status resp = 200"
proof -
  define src where "src = getUserFilePath base uid mt (fileName m)"
  define out where "out = getOptimizedPath base uid mt (''opt_'' @ path_parse_name (fileName m) @ ''.webp'')"
  define w0 where "w0 = snd (ensureUserDirExists base uid (mt @ ''/optimized'') w)"
  have w0: "files w0 = files w" "docs w0 = docs w"
    by (simp_all add: w0_def ensure_frame)
  have a: "files w0 src \<noteq> None" "src \<noteq> out" "docs w0 k \<noteq> None"
    using assms by (simp_all add: src_def out_def w0)
  show ?thesis
    unfolding optimizeImage_def Let_def andThen_ensure
    unfolding src_def [symmetric] out_def [symmetric] w0_def [symmetric]
    using a
    by (auto simp: andThen_def sharp_toFile_def statSync_def Media_save_def ok_def throw_def
        emit_def existsSync_def unlinkSync_def Let_def split: option.splits)
qed

lemma optimizeMedia_image:
  assumes "req_user req = Some uid"
    and "fst (Media_findOne (req_id req) uid w) = Inr (Some (k, m))"
    and "\<not> (isOptimized m \<and> truthy_opt (optimizedFileUrl m))"
    and "isImage (fileType m)" and "\<not> endsWith (fileName m) ''.webp''"
  shows "optimizeMedia base enc req w
           = respond ''An error occurred optimizing media''
               (optimizeImage base enc (req_protocol req @ ''://'' @ req_host req) uid ''images'' k m w)"
proof -
  have f: "Media_findOne (req_id req) uid w = (Inr (Some (k, m)), w)"
    using Media_findOne_found [OF assms(2)] by simp
  have mt: "mediaTypeOf (fileType m) = ''images''"
    using assms(4) by (simp add: mediaTypeOf_def)
  show ?thesis
    using assms(1,3,4,5) by (auto simp: optimizeMedia_def andThen_def f Let_def mt)
qed

text \<open>The re-optimization of either image record of \<open>world2\<close>, from the lemmas above.\<close>

lemma world2_paths:
  "getUserFilePath ''./uploads'' owner1 ''images'' ''a.png''
     = ''uploads/64b7f0c2a1d3e4f5a6b7c8d9/images/a.png''"
  "getUserFilePath ''./uploads'' owner1 ''images'' ''b.png''
     = ''uploads/64b7f0c2a1d3e4f5a6b7c8d9/images/b.png''"
  "getOptimizedPath ''./uploads'' owner1 ''images'' ''opt_a.webp''
     = ''uploads/64b7f0c2a1d3e4f5a6b7c8d9/images/optimized/opt_a.webp''"
  "getOptimizedPath ''./uploads'' owner1 ''images'' ''opt_b.webp''
     = ''uploads/64b7f0c2a1d3e4f5a6b7c8d9/images/optimized/opt_b.webp''"
  "optimizedUrlOf ''https://media.test'' owner1 ''images'' ''opt_a.webp''
     = ''https://media.test/uploads/64b7f0c2a1d3e4f5a6b7c8d9/images/optimized/opt_a.webp''"
  "optimizedUrlOf ''https://media.test'' owner1 ''images'' ''opt_b.webp''
     = ''https://media.test/uploads/64b7f0c2a1d3e4f5a6b7c8d9/images/optimized/opt_b.webp''"
  "path_parse_name ''a.png'' = ''a''" "path_parse_name ''b.png'' = ''b''"
  by (simp_all add: path_defs url_defs owner1_def)

lemma world2_found:
  "fst (Media_findOne (req_id (request_for ''650000000000000000000003'')) owner1 world2)
     = Inr (Some (''650000000000000000000003'', flagged_image))"
  "fst (Media_findOne (req_id (request_for ''650000000000000000000004'')) owner1 world2)
     = Inr (Some (''650000000000000000000004'', plain_image))"
  by (simp_all add: request_for_def world2_def flagged_image_def plain_image_def store_defs
      ok_def throw_def)

lemma world2_reoptimize:
  assumes rec: "(mid, m, nm) = (''650000000000000000000003'', flagged_image, ''a.png'')
              \<or> (mid, m, nm) = (''650000000000000000000004'', plain_image, ''b.png'')"
  shows "\<exists>resp w'. optimizeMedia ''./uploads'' (SharpOk n) (request_for mid) world2 = (resp, w')
       \<and> optimizeImage ''./uploads'' (SharpOk n) ''https://media.test'' owner1 ''images'' mid m world2
            = (Inr resp, w')
       \<and> res_status resp = 200"
proof -
  have nm: "fileName m = nm" using rec by (auto simp: flagged_image_def plain_image_def)
  have found: "fst (Media_findOne (req_id (request_for mid)) owner1 world2) = Inr (Some (mid, m))"
    using rec world2_found by auto
  have user: "req_user (request_for mid) = Some owner1" by (simp add: request_for_def)
  have base: "req_protocol (request_for mid) @ ''://'' @ req_host (request_for mid) = ''https://media.test''"
    by (simp add: request_for_def)
  have notopt: "\<not> (isOptimized m \<and> truthy_opt (optimizedFileUrl m))"
    using rec by (auto simp: flagged_image_def plain_image_def truthy_opt_def)
  have img: "isImage (fileType m)" and nw: "\<not> endsWith (fileName m) ''.webp''"
    using rec by (auto simp: flagged_image_def plain_image_def isImage_def startsWith_def endsWith_def)
  have src: "files world2 (getUserFilePath ''./uploads'' owner1 ''images'' (fileName m)) \<noteq> None"
    using rec by (auto simp: nm world2_paths world2_def)
  have ne: "getUserFilePath ''./uploads'' owner1 ''images'' (fileName m)
           \<noteq> getOptimizedPath ''./uploads'' owner1 ''images'' (''opt_'' @ path_parse_name (fileName m) @ ''.webp'')"
    using rec by (auto simp: nm world2_paths)
  have doc: "docs world2 mid \<noteq> None" using rec by (auto simp: world2_def)
  obtain resp w' where o: "optimizeImage ''./uploads'' (SharpOk n) ''https://media.test'' owner1 ''images'' mid m world2
            = (Inr resp, w')" and st: "res_status resp = 200"
    using optimizeImage_succeeds [OF src ne doc] by blast
  have "optimizeMedia ''./uploads'' (SharpOk n) (request_for mid) world2 = (resp, w')"
    unfolding optimizeMedia_image [OF user found notopt img nw] base o
    by (simp add: respond_def)
  with o st show ?thesis by blast
qed

text \<open>
  Claim C4, amended.  For every record of the owner whose \<open>isOptimized\<close> is true and
  whose \<open>optimizedFileUrl\<close> is set, and for every image record whose \<open>isOptimized\<close> is
  true and whose file name ends in \<open>.webp\<close>, \<open>optimizeMedia\<close> answers 200 and leaves
  the whole world (files, records, jobs, trace) as it was; a second call, whatever the
  encoder would have done, gives the same answer and the same world.
\<close>

theorem reoptimize_already_optimized_is_noop:
  assumes user: "req_user req = Some uid"
    and found: "fst (Media_findOne (req_id req) uid w) = Inr (Some (k, m))"
    and opt: "isOptimized m"
    and guard: "truthy_opt (optimizedFileUrl m)
                \<or> (isImage (fileType m) \<and> endsWith (fileName m) ''.webp'')"
  shows "snd (optimizeMedia base enc req w) = w
       \<and> res_status (fst (optimizeMedia base enc req w)) = 200
       \<and> optimizeMedia base enc2 req (snd (optimizeMedia base enc req w))
           = optimizeMedia base enc req w"
proof -
  have f: "Media_findOne (req_id req) uid w = (Inr (Some (k, m)), w)" and d: "docs w k \<noteq> None"
    using Media_findOne_found [OF found] by simp_all
  have s: "Media_save k m [IsOptimized True] w = (Inr m, w)"
    using d opt by (intro Media_save_unchanged) simp_all
  have r: "optimizeMedia base e req w =
        (if truthy_opt (optimizedFileUrl m) then
           \<lparr>res_status = 200, res_message = ''Media already optimized'',
            res_media = OptimizedView k (optimizedFileUrl m) (isOptimized m)\<rparr>
         else \<lparr>res_status = 200, res_message = ''Image already in optimal WebP format'',
               res_media = WebpView k (fileUrl m) (isOptimized m)\<rparr>, w)" for e
    using user opt guard
    by (auto simp: optimizeMedia_def andThen_def f respond_def ok_def Let_def s)
  show ?thesis by (simp add: r)
qed

text \<open>
  The theorem at the stored WebP image of \<open>world1\<close>, which satisfies both guards.
\<close>

theorem reoptimize_already_optimized_is_noop_witness:
  "req_user (request_for ''650000000000000000000001'') = Some owner1
   \<and> fst (Media_findOne (req_id (request_for ''650000000000000000000001'')) owner1 world1)
       = Inr (Some (''650000000000000000000001'', stored_image))
   \<and> isOptimized stored_image \<and> truthy_opt (optimizedFileUrl stored_image)
   \<and> isImage (fileType stored_image) \<and> endsWith (fileName stored_image) ''.webp''
   \<and> snd (optimizeMedia ''./uploads'' (SharpOk 5) (request_for ''650000000000000000000001'') world1)
       = world1
   \<and> res_status (fst (optimizeMedia ''./uploads'' (SharpOk 5)
                         (request_for ''650000000000000000000001'') world1)) = 200"
proof -
  have user: "req_user (request_for ''650000000000000000000001'') = Some owner1"
    by (simp add: request_for_def)
  have found: "fst (Media_findOne (req_id (request_for ''650000000000000000000001'')) owner1 world1)
       = Inr (Some (''650000000000000000000001'', stored_image))"
    by (simp add: request_for_def world1_def stored_image_def store_defs ok_def throw_def)
  have opt: "isOptimized stored_image" by (simp add: stored_image_def)
  have g1: "truthy_opt (optimizedFileUrl stored_image)"
    by (simp add: stored_image_def truthy_opt_def)
  have g2: "isImage (fileType stored_image)" "endsWith (fileName stored_image) ''.webp''"
    by (simp_all add: stored_image_def isImage_def startsWith_def endsWith_def)
  have guard: "truthy_opt (optimizedFileUrl stored_image)
                \<or> (isImage (fileType stored_image) \<and> endsWith (fileName stored_image) ''.webp'')"
    using g1 by simp
  from reoptimize_already_optimized_is_noop [OF user found opt guard, of "''./uploads''" "SharpOk 5"]
    user found opt g1 g2
  show ?thesis by simp
qed

text \<open>
  Claim C4 as stated fails for a record whose \<open>isOptimized\<close> is true while its
  \<open>optimizedFileUrl\<close> is not set: \<open>optimizeMedia\<close> re-encodes it, the source file is
  deleted and the record changes.
\<close>

theorem reoptimize_flagged_record_counterexample:
  "map_option isOptimized (docs world2 ''650000000000000000000003'') = Some True
   \<and> files world2 ''uploads/64b7f0c2a1d3e4f5a6b7c8d9/images/a.png'' = Some 5000
   \<and> files (snd (optimizeMedia ''./uploads'' (SharpOk 1200)
                    (request_for ''650000000000000000000003'') world2))
        ''uploads/64b7f0c2a1d3e4f5a6b7c8d9/images/a.png'' = None
   \<and> map_option fileSize (docs world2 ''650000000000000000000003'') = Some 5000
   \<and> map_option fileSize
        (docs (snd (optimizeMedia ''./uploads'' (SharpOk 1200)
                      (request_for ''650000000000000000000003'') world2))
           ''650000000000000000000003'') = Some 1200"
proof -
  obtain resp w' where r: "optimizeMedia ''./uploads'' (SharpOk 1200)
        (request_for ''650000000000000000000003'') world2 = (resp, w')"
    and o: "optimizeImage ''./uploads'' (SharpOk 1200) ''https://media.test'' owner1 ''images''
              ''650000000000000000000003'' flagged_image world2 = (Inr resp, w')"
    using world2_reoptimize [of "''650000000000000000000003''" flagged_image "''a.png''" 1200]
    by blast
  have nm: "fileName flagged_image = ''a.png''" by (simp add: flagged_image_def)
  from optimizeImage_Inr [OF o] obtain stored where
    st: "docs world2 ''650000000000000000000003'' = Some stored"
    and f: "files w' = (files world2)
          (getOptimizedPath ''./uploads'' owner1 ''images''
             (''opt_'' @ path_parse_name (fileName flagged_image) @ ''.webp'') := Some 1200,
           getUserFilePath ''./uploads'' owner1 ''images'' (fileName flagged_image) := None)"
    and d: "docs w' = (docs world2)(''650000000000000000000003'' := Some (apply_fields
          (filter (\<lambda>f. \<not> field_holds f flagged_image)
             [OptimizedFileUrl (Some (optimizedUrlOf ''https://media.test'' owner1 ''images''
                 (''opt_'' @ path_parse_name (fileName flagged_image) @ ''.webp''))),
              IsOptimized True, FileSize 1200]
           @ (if fileUrl flagged_image = optimizedUrlOf ''https://media.test'' owner1 ''images''
                   (''opt_'' @ path_parse_name (fileName flagged_image) @ ''.webp'')
              then [] else [FileUrl (optimizedUrlOf ''https://media.test'' owner1 ''images''
                   (''opt_'' @ path_parse_name (fileName flagged_image) @ ''.webp''))])) stored))"
    by auto
  have stored: "stored = flagged_image" using st by (simp add: world2_def)
  have 1: "files w' ''uploads/64b7f0c2a1d3e4f5a6b7c8d9/images/a.png'' = None"
    unfolding f nm by (simp add: world2_paths)
  have 2: "map_option fileSize (docs w' ''650000000000000000000003'') = Some 1200"
    unfolding d stored nm by (simp add: world2_paths flagged_image_def apply_fields_def)
  have 3: "map_option isOptimized (docs world2 ''650000000000000000000003'') = Some True"
    "files world2 ''uploads/64b7f0c2a1d3e4f5a6b7c8d9/images/a.png'' = Some 5000"
    "map_option fileSize (docs world2 ''650000000000000000000003'') = Some 5000"
    by (simp_all add: world2_def flagged_image_def)
  show ?thesis using 1 2 3 by (simp add: r)
qed

section \<open>Update calls of a completion\<close>

text \<open>What the two \<open>end\<close> handlers of a transcode write to the store.\<close>

lemma optimizeTranscode_onEnd_updates:
  "(\<exists>n stored. files w out = Some n \<and> docs w k = Some stored
       \<and> filter (\<lambda>f. \<not> field_holds f m)
            [OptimizedFileUrl (Some url), IsOptimized True, FileSize n, FileUrl url] \<noteq> []
       \<and> dbUpdates (trace (optimizeTranscode_onEnd src out k m url w))
           = dbUpdates (trace w) @
               [(k, filter (\<lambda>f. \<not> field_holds f m)
                      [OptimizedFileUrl (Some url), IsOptimized True, FileSize n, FileUrl url])]
       \<and> docs (optimizeTranscode_onEnd src out k m url w)
           = (docs w)(k := Some (apply_fields
                (filter (\<lambda>f. \<not> field_holds f m)
                   [OptimizedFileUrl (Some url), IsOptimized True, FileSize n, FileUrl url]) stored)))
   \<or> (dbUpdates (trace (optimizeTranscode_onEnd src out k m url w)) = dbUpdates (trace w)
       \<and> docs (optimizeTranscode_onEnd src out k m url w) = docs w)"
proof (cases "files w out")
  case None
  then show ?thesis
    by (simp add: optimizeTranscode_onEnd_def andThen_def statSync_def throw_def emit_def
        dbUpdates_append)
next
  case (Some n)
  show ?thesis
  proof (cases "docs w k")
    case None
    then show ?thesis
      using Some
      by (simp add: optimizeTranscode_onEnd_def andThen_def statSync_def Media_save_def Let_def
          throw_def ok_def emit_def dbUpdates_append)
  next
    case stored: (Some stored)
    show ?thesis
    proof (cases "filter (\<lambda>f. \<not> field_holds f m)
            [OptimizedFileUrl (Some url), IsOptimized True, FileSize n, FileUrl url] = []")
      case True
      then show ?thesis
        using Some stored
        by (auto simp: optimizeTranscode_onEnd_def andThen_def statSync_def Media_save_def Let_def
            throw_def ok_def emit_def dbUpdates_append existsSync_def unlinkSync_def
            simp del: filter.simps)
    next
      case False
      then show ?thesis
        using Some stored
        by (auto simp: optimizeTranscode_onEnd_def andThen_def statSync_def Media_save_def Let_def
            throw_def ok_def emit_def dbUpdates_append existsSync_def unlinkSync_def
            simp del: filter.simps)
    qed
  qed
qed

lemma uploadTranscode_onEnd_updates:
  "(\<exists>n k stored. files w out = Some n \<and> castObjectId anId = Some k \<and> docs w k = Some stored
       \<and> dbUpdates (trace (uploadTranscode_onEnd src out anId url w))
           = dbUpdates (trace w) @
               [(k, [OptimizedFileUrl (Some url), IsOptimized True, FileSize n])]
       \<and> docs (uploadTranscode_onEnd src out anId url w)
           = (docs w)(k := Some (apply_fields
                [OptimizedFileUrl (Some url), IsOptimized True, FileSize n] stored)))
   \<or> (dbUpdates (trace (uploadTranscode_onEnd src out anId url w)) = dbUpdates (trace w)
       \<and> docs (uploadTranscode_onEnd src out anId url w) = docs w)"
proof (cases "files w out")
  case None
  then show ?thesis
    by (simp add: uploadTranscode_onEnd_def andThen_def statSync_def throw_def emit_def
        dbUpdates_append)
next
  case (Some n)
  show ?thesis
  proof (cases "castObjectId anId")
    case None
    then show ?thesis
      using Some
      by (simp add: uploadTranscode_onEnd_def andThen_def statSync_def Media_findByIdAndUpdate_def
          castError_def throw_def ok_def emit_def dbUpdates_append)
  next
    case k: (Some k)
    show ?thesis
    proof (cases "docs w k")
      case None
      then show ?thesis
        using Some k
        by (auto simp: uploadTranscode_onEnd_def andThen_def statSync_def
            Media_findByIdAndUpdate_def throw_def ok_def emit_def dbUpdates_append existsSync_def
            unlinkSync_def)
    next
      case stored: (Some stored)
      then show ?thesis
        using Some k
        by (auto simp: uploadTranscode_onEnd_def andThen_def statSync_def
            Media_findByIdAndUpdate_def throw_def ok_def emit_def dbUpdates_append existsSync_def
            unlinkSync_def)
    qed
  qed
qed

lemma updatesDuring_eq:
  "dbUpdates (trace w') = dbUpdates (trace w) @ us \<Longrightarrow> updatesDuring w w' = us"
  by (simp add: updatesDuring_def)

text \<open>
  Claim C5, amended.  The \<open>end\<close> handler of either transcode issues at most one update
  call; when it changes the store, that one call carries every field the handler
  changes and the stored document becomes the old one with exactly those fields set.
  The image branch of \<open>optimizeMedia\<close> issues two \<open>save()\<close> calls: the first carries
  \<open>optimizedFileUrl\<close>, \<open>isOptimized\<close> and \<open>fileSize\<close>, the second, after the source file is
  deleted, \<open>fileUrl\<close>.
\<close>

theorem completion_updates_in_one_call:
  "((updatesDuring w (optimizeTranscode_onEnd src out k m url w) = []
       \<and> docs (optimizeTranscode_onEnd src out k m url w) = docs w)
    \<or> (\<exists>n stored. files w out = Some n \<and> docs w k = Some stored
          \<and> updatesDuring w (optimizeTranscode_onEnd src out k m url w)
              = [(k, modifiedFields m
                       [OptimizedFileUrl (Some url), IsOptimized True, FileSize n, FileUrl url])]
          \<and> docs (optimizeTranscode_onEnd src out k m url w)
              = (docs w)(k := Some (apply_fields
                   (modifiedFields m
                      [OptimizedFileUrl (Some url), IsOptimized True, FileSize n, FileUrl url])
                   stored))))
   \<and> ((updatesDuring w (uploadTranscode_onEnd src out anId url w) = []
         \<and> docs (uploadTranscode_onEnd src out anId url w) = docs w)
      \<or> (\<exists>n k2 stored. files w out = Some n \<and> castObjectId anId = Some k2
            \<and> docs w k2 = Some stored
            \<and> updatesDuring w (uploadTranscode_onEnd src out anId url w)
                = [(k2, [OptimizedFileUrl (Some url), IsOptimized True, FileSize n])]
            \<and> docs (uploadTranscode_onEnd src out anId url w)
                = (docs w)(k2 := Some (apply_fields
                     [OptimizedFileUrl (Some url), IsOptimized True, FileSize n] stored))))
   \<and> (optimizeImage base enc baseUrl uid mt k m w = (Inr resp, w') \<longrightarrow>
        (\<exists>n. enc = SharpOk n
           \<and> updatesDuring w w' =
               (if modifiedFields m
                     [OptimizedFileUrl (Some (optimizedUrlOf baseUrl uid mt
                         (''opt_'' @ path_parse_name (fileName m) @ ''.webp''))),
                      IsOptimized True, FileSize n] = [] then []
                else [(k, modifiedFields m
                     [OptimizedFileUrl (Some (optimizedUrlOf baseUrl uid mt
                         (''opt_'' @ path_parse_name (fileName m) @ ''.webp''))),
                      IsOptimized True, FileSize n])])
               @ (if fileUrl m = optimizedUrlOf baseUrl uid mt
                        (''opt_'' @ path_parse_name (fileName m) @ ''.webp'')
                  then [] else [(k, [FileUrl (optimizedUrlOf baseUrl uid mt
                        (''opt_'' @ path_parse_name (fileName m) @ ''.webp''))])])))"
proof -
  have a: "(updatesDuring w (optimizeTranscode_onEnd src out k m url w) = []
       \<and> docs (optimizeTranscode_onEnd src out k m url w) = docs w)
    \<or> (\<exists>n stored. files w out = Some n \<and> docs w k = Some stored
          \<and> updatesDuring w (optimizeTranscode_onEnd src out k m url w)
              = [(k, modifiedFields m
                       [OptimizedFileUrl (Some url), IsOptimized True, FileSize n, FileUrl url])]
          \<and> docs (optimizeTranscode_onEnd src out k m url w)
              = (docs w)(k := Some (apply_fields
                   (modifiedFields m
                      [OptimizedFileUrl (Some url), IsOptimized True, FileSize n, FileUrl url])
                   stored)))"
    using optimizeTranscode_onEnd_updates [where w = w and out = out and k = k and m = m and url = url and src = src]
    unfolding modifiedFields_def updatesDuring_def by (elim disjE exE conjE) auto
  have b: "(updatesDuring w (uploadTranscode_onEnd src out anId url w) = []
         \<and> docs (uploadTranscode_onEnd src out anId url w) = docs w)
      \<or> (\<exists>n k2 stored. files w out = Some n \<and> castObjectId anId = Some k2
            \<and> docs w k2 = Some stored
            \<and> updatesDuring w (uploadTranscode_onEnd src out anId url w)
                = [(k2, [OptimizedFileUrl (Some url), IsOptimized True, FileSize n])]
            \<and> docs (uploadTranscode_onEnd src out anId url w)
                = (docs w)(k2 := Some (apply_fields
                     [OptimizedFileUrl (Some url), IsOptimized True, FileSize n] stored)))"
    using uploadTranscode_onEnd_updates [where w = w and out = out and anId = anId and url = url and src = src]
    unfolding updatesDuring_def by (elim disjE exE conjE) auto
  have c: "optimizeImage base enc baseUrl uid mt k m w = (Inr resp, w') \<longrightarrow>
        (\<exists>n. enc = SharpOk n
           \<and> updatesDuring w w' =
               (if modifiedFields m
                     [OptimizedFileUrl (Some (optimizedUrlOf baseUrl uid mt
                         (''opt_'' @ path_parse_name (fileName m) @ ''.webp''))),
                      IsOptimized True, FileSize n] = [] then []
                else [(k, modifiedFields m
                     [OptimizedFileUrl (Some (optimizedUrlOf baseUrl uid mt
                         (''opt_'' @ path_parse_name (fileName m) @ ''.webp''))),
                      IsOptimized True, FileSize n])])
               @ (if fileUrl m = optimizedUrlOf baseUrl uid mt
                        (''opt_'' @ path_parse_name (fileName m) @ ''.webp'')
                  then [] else [(k, [FileUrl (optimizedUrlOf baseUrl uid mt
                        (''opt_'' @ path_parse_name (fileName m) @ ''.webp''))])]))"
  proof
    assume "optimizeImage base enc baseUrl uid mt k m w = (Inr resp, w')"
    from optimizeImage_Inr [OF this] obtain n where "enc = SharpOk n"
      and "dbUpdates (trace w') = dbUpdates (trace w)
          @ (if filter (\<lambda>f. \<not> field_holds f m)
                  [OptimizedFileUrl (Some (optimizedUrlOf baseUrl uid mt
                      (''opt_'' @ path_parse_name (fileName m) @ ''.webp''))),
                   IsOptimized True, FileSize n] = [] then []
             else [(k, filter (\<lambda>f. \<not> field_holds f m)
                  [OptimizedFileUrl (Some (optimizedUrlOf baseUrl uid mt
                      (''opt_'' @ path_parse_name (fileName m) @ ''.webp''))),
                   IsOptimized True, FileSize n])])
          @ (if fileUrl m = optimizedUrlOf baseUrl uid mt
                   (''opt_'' @ path_parse_name (fileName m) @ ''.webp'')
             then [] else [(k, [FileUrl (optimizedUrlOf baseUrl uid mt
                   (''opt_'' @ path_parse_name (fileName m) @ ''.webp''))])])"
      by blast
    then show "\<exists>n. enc = SharpOk n
           \<and> updatesDuring w w' =
               (if modifiedFields m
                     [OptimizedFileUrl (Some (optimizedUrlOf baseUrl uid mt
                         (''opt_'' @ path_parse_name (fileName m) @ ''.webp''))),
                      IsOptimized True, FileSize n] = [] then []
                else [(k, modifiedFields m
                     [OptimizedFileUrl (Some (optimizedUrlOf baseUrl uid mt
                         (''opt_'' @ path_parse_name (fileName m) @ ''.webp''))),
                      IsOptimized True, FileSize n])])
               @ (if fileUrl m = optimizedUrlOf baseUrl uid mt
                        (''opt_'' @ path_parse_name (fileName m) @ ''.webp'')
                  then [] else [(k, [FileUrl (optimizedUrlOf baseUrl uid mt
                        (''opt_'' @ path_parse_name (fileName m) @ ''.webp''))])])"
      unfolding modifiedFields_def by (intro exI conjI updatesDuring_eq) assumption+
  qed
  from a b c show ?thesis by (intro conjI)
qed

text \<open>
  The theorem at the re-optimization of \<open>b.png\<close>: the image branch succeeds and issues
  two update calls.
\<close>

theorem completion_updates_in_one_call_witness:
  "(\<exists>resp. fst (optimizeImage ''./uploads'' (SharpOk 1300) ''https://media.test'' owner1 ''images''
                   ''650000000000000000000004'' plain_image world2) = Inr resp)
   \<and> length (updatesDuring world2
        (snd (optimizeImage ''./uploads'' (SharpOk 1300) ''https://media.test'' owner1 ''images''
                ''650000000000000000000004'' plain_image world2))) = 2"
proof -
  obtain resp w' where o: "optimizeImage ''./uploads'' (SharpOk 1300) ''https://media.test'' owner1 ''images''
              ''650000000000000000000004'' plain_image world2 = (Inr resp, w')"
    using world2_reoptimize [of "''650000000000000000000004''" plain_image "''b.png''" 1300]
    by blast
  have nm: "fileName plain_image = ''b.png''" by (simp add: plain_image_def)
  have "optimizeImage ''./uploads'' (SharpOk 1300) ''https://media.test'' owner1 ''images''
              ''650000000000000000000004'' plain_image world2 = (Inr resp, w') \<longrightarrow>
        (\<exists>n. SharpOk 1300 = SharpOk n
           \<and> updatesDuring world2 w' =
               (if modifiedFields plain_image
                     [OptimizedFileUrl (Some (optimizedUrlOf ''https://media.test'' owner1 ''images''
                         (''opt_'' @ path_parse_name (fileName plain_image) @ ''.webp''))),
                      IsOptimized True, FileSize n] = [] then []
                else [(''650000000000000000000004'', modifiedFields plain_image
                     [OptimizedFileUrl (Some (optimizedUrlOf ''https://media.test'' owner1 ''images''
                         (''opt_'' @ path_parse_name (fileName plain_image) @ ''.webp''))),
                      IsOptimized True, FileSize n])])
               @ (if fileUrl plain_image = optimizedUrlOf ''https://media.test'' owner1 ''images''
                        (''opt_'' @ path_parse_name (fileName plain_image) @ ''.webp'')
                  then [] else [(''650000000000000000000004'',
                     [FileUrl (optimizedUrlOf ''https://media.test'' owner1 ''images''
                        (''opt_'' @ path_parse_name (fileName plain_image) @ ''.webp''))])]))"
    using completion_updates_in_one_call
      [where base = "''./uploads''" and enc = "SharpOk 1300" and baseUrl = "''https://media.test''"
         and uid = owner1 and mt = "''images''" and k = "''650000000000000000000004''"
         and m = plain_image and w = world2 and resp = resp and w' = w']
    by blast
  with o have "length (updatesDuring world2 w') = 2"
    by (auto simp: nm world2_paths modifiedFields_def plain_image_def)
  with o show ?thesis by simp
qed

text \<open>
  Claim C5 as stated fails for the image branch of \<open>optimizeMedia\<close>: re-optimizing
  \<open>b.png\<close> issues two update calls, and the document stored by the first one is
  already flagged optimized while its \<open>fileUrl\<close> is still the old one.
\<close>

theorem image_reoptimize_two_saves_counterexample:
  "updatesDuring world2
     (snd (optimizeMedia ''./uploads'' (SharpOk 1300) (request_for ''650000000000000000000004'')
             world2))
     = [(''650000000000000000000004'',
           [OptimizedFileUrl
              (Some ''https://media.test/uploads/64b7f0c2a1d3e4f5a6b7c8d9/images/optimized/opt_b.webp''),
            IsOptimized True, FileSize 1300]),
        (''650000000000000000000004'',
           [FileUrl ''https://media.test/uploads/64b7f0c2a1d3e4f5a6b7c8d9/images/optimized/opt_b.webp''])]
   \<and> isOptimized (apply_fields
          [OptimizedFileUrl
              (Some ''https://media.test/uploads/64b7f0c2a1d3e4f5a6b7c8d9/images/optimized/opt_b.webp''),
            IsOptimized True, FileSize 1300] plain_image)
   \<and> fileUrl (apply_fields
          [OptimizedFileUrl
              (Some ''https://media.test/uploads/64b7f0c2a1d3e4f5a6b7c8d9/images/optimized/opt_b.webp''),
            IsOptimized True, FileSize 1300] plain_image)
       = ''https://media.test/uploads/64b7f0c2a1d3e4f5a6b7c8d9/images/b.png''"
proof -
  obtain resp w' where r: "optimizeMedia ''./uploads'' (SharpOk 1300)
        (request_for ''650000000000000000000004'') world2 = (resp, w')"
    and o: "optimizeImage ''./uploads'' (SharpOk 1300) ''https://media.test'' owner1 ''images''
              ''650000000000000000000004'' plain_image world2 = (Inr resp, w')"
    using world2_reoptimize [of "''650000000000000000000004''" plain_image "''b.png''" 1300]
    by blast
  have nm: "fileName plain_image = ''b.png''" by (simp add: plain_image_def)
  from optimizeImage_Inr [OF o] have
    "dbUpdates (trace w') = dbUpdates (trace world2)
          @ (if filter (\<lambda>f. \<not> field_holds f plain_image)
                  [OptimizedFileUrl (Some (optimizedUrlOf ''https://media.test'' owner1 ''images''
                      (''opt_'' @ path_parse_name (fileName plain_image) @ ''.webp''))),
                   IsOptimized True, FileSize 1300] = [] then []
             else [(''650000000000000000000004'', filter (\<lambda>f. \<not> field_holds f plain_image)
                  [OptimizedFileUrl (Some (optimizedUrlOf ''https://media.test'' owner1 ''images''
                      (''opt_'' @ path_parse_name (fileName plain_image) @ ''.webp''))),
                   IsOptimized True, FileSize 1300])])
          @ (if fileUrl plain_image = optimizedUrlOf ''https://media.test'' owner1 ''images''
                   (''opt_'' @ path_parse_name (fileName plain_image) @ ''.webp'')
             then [] else [(''650000000000000000000004'',
                [FileUrl (optimizedUrlOf ''https://media.test'' owner1 ''images''
                   (''opt_'' @ path_parse_name (fileName plain_image) @ ''.webp''))])])"
    by auto
  then have "updatesDuring world2 w'
     = [(''650000000000000000000004'',
           [OptimizedFileUrl
              (Some ''https://media.test/uploads/64b7f0c2a1d3e4f5a6b7c8d9/images/optimized/opt_b.webp''),
            IsOptimized True, FileSize 1300]),
        (''650000000000000000000004'',
           [FileUrl ''https://media.test/uploads/64b7f0c2a1d3e4f5a6b7c8d9/images/optimized/opt_b.webp''])]"
    by (intro updatesDuring_eq) (simp add: nm world2_paths plain_image_def)
  then show ?thesis
    by (simp add: r apply_fields_def plain_image_def)
qed

end
